theory Spec2Isabelle
  imports Main "HOL-Library.Sublist" "HOL-Library.AList"
begin

section \<open>Python values\<close>

text \<open>
  Both scripts work on the value that \<^verbatim>\<open>json.load\<close> returns and on strings read from the
  process environment. A Python \<^verbatim>\<open>str\<close> is a \<^typ>\<open>string\<close>; one \<^typ>\<open>char\<close> stands for
  one character of the Python string, so \<^const>\<open>length\<close> is Python's \<^verbatim>\<open>len\<close>. JSON
  \<^verbatim>\<open>null\<close> is Python's \<^verbatim>\<open>None\<close>; a JSON object is a \<^verbatim>\<open>dict\<close> in insertion order.
  Numbers with a fraction (Python floats) are left out of the model: no field the
  scripts read from a GitHub issue event is one.
\<close>

datatype json =
    JNull
  | JBool bool
  | JInt int
  | JStr string
  | JList "json list"
  | JObj "(string \<times> json) list"

text \<open>What Python raises. \<^verbatim>\<open>SystemExit\<close> carries the message the scripts give it;
  every other exception is uncaught, and ends the process with a traceback.\<close>

datatype exn =
    TypeError | AttributeError | ValueError | KeyError | OverflowError
  | OSError | JSONDecodeError | URLError | DatabaseError

datatype error = SystemExit string | Uncaught exn

text \<open>The exit status of the process: \<^verbatim>\<open>SystemExit\<close> with a string argument prints the
  string and exits with status 1, and so does an uncaught exception.\<close>

fun exit_status :: "error + 'a \<Rightarrow> int" where
  "exit_status (Inl (SystemExit msg)) = 1"
| "exit_status (Inl (Uncaught e)) = 1"
| "exit_status (Inr v) = 0"

text \<open>Sequencing of steps that may raise: the first exception ends the run.\<close>

definition then_do :: "error + 'a \<Rightarrow> ('a \<Rightarrow> error + 'b) \<Rightarrow> error + 'b" where
  "then_do r f = (case r of Inl e \<Rightarrow> Inl e | Inr v \<Rightarrow> f v)"

text \<open>Truth value of a Python object, as \<^verbatim>\<open>if x\<close> and \<^verbatim>\<open>not x\<close> read it.\<close>

fun truthy :: "json \<Rightarrow> bool" where
  "truthy JNull = False"
| "truthy (JBool b) = b"
| "truthy (JInt n) = (n \<noteq> 0)"
| "truthy (JStr s) = (s \<noteq> [])"
| "truthy (JList xs) = (xs \<noteq> [])"
| "truthy (JObj kvs) = (kvs \<noteq> [])"

section \<open>Configuration: \<^verbatim>\<open>_env\<close>\<close>

text \<open>
  \<^verbatim>\<open>os.getenv(name, default)\<close> reads the process environment, a map from names to
  strings. Both scripts define the same \<^verbatim>\<open>_env\<close>:
  \<^verbatim>\<open>
  def _env(name, default=None):
      value = os.getenv(name, default)
      if value is None or value == "":
          raise SystemExit(f"Missing required env var: {name}")
      return value
  \<close>
\<close>

type_synonym environ = "string \<rightharpoonup> string"

definition getenv :: "environ \<Rightarrow> string \<Rightarrow> string option \<Rightarrow> string option" where
  "getenv environ name dflt = (case environ name of Some v \<Rightarrow> Some v | None \<Rightarrow> dflt)"

text \<open>\<^verbatim>\<open>os.getenv(name, default)\<close> with a string for the default.\<close>

definition getenv_or :: "environ \<Rightarrow> string \<Rightarrow> string \<Rightarrow> string" where
  "getenv_or environ name dflt = (case environ name of Some v \<Rightarrow> v | None \<Rightarrow> dflt)"

definition env :: "environ \<Rightarrow> string \<Rightarrow> string option \<Rightarrow> error + string" where
  "env environ name dflt =
     (case getenv environ name dflt of
        None \<Rightarrow> Inl (SystemExit (''Missing required env var: '' @ name))
      | Some v \<Rightarrow>
          if v = [] then Inl (SystemExit (''Missing required env var: '' @ name))
          else Inr v)"

section \<open>Truncation: \<^verbatim>\<open>_truncate\<close>\<close>

text \<open>
  \<^verbatim>\<open>
  def _truncate(value, limit):
      if value is None:
          return None
      if len(value) <= limit:
          return value
      return value[: limit - 3] + "..."
  \<close>
  The slice \<^verbatim>\<open>value[:k]\<close> keeps the first \<open>k\<close> items when \<open>k \<ge> 0\<close> and drops the last
  \<open>-k\<close> items when \<open>k < 0\<close>. \<^verbatim>\<open>len\<close> of a number raises \<^verbatim>\<open>TypeError\<close>; a list or a dict
  has a length, and fails only when it is too long: a list cannot be concatenated with a
  string, a dict cannot be sliced.
\<close>

definition slice_to :: "'a list \<Rightarrow> int \<Rightarrow> 'a list" where
  "slice_to xs k = (if 0 \<le> k then take (nat k) xs else take (length xs - nat (- k)) xs)"

fun truncate_value :: "json \<Rightarrow> int \<Rightarrow> error + json" where
  "truncate_value JNull limit = Inr JNull"
| "truncate_value (JStr s) limit =
     (if int (length s) \<le> limit then Inr (JStr s)
      else Inr (JStr (slice_to s (limit - 3) @ ''...'')))"
| "truncate_value (JList xs) limit =
     (if int (length xs) \<le> limit then Inr (JList xs) else Inl (Uncaught TypeError))"
| "truncate_value (JObj kvs) limit =
     (if int (length kvs) \<le> limit then Inr (JObj kvs) else Inl (Uncaught TypeError))"
| "truncate_value (JBool b) limit = Inl (Uncaught TypeError)"
| "truncate_value (JInt n) limit = Inl (Uncaught TypeError)"

section \<open>Text of a value: \<^verbatim>\<open>str\<close> and f-strings\<close>

text \<open>
  \<^verbatim>\<open>str(x)\<close> and \<^verbatim>\<open>f"{x}"\<close> give a string as it is and the \<^verbatim>\<open>repr\<close> of any other value:
  decimal digits for an \<^verbatim>\<open>int\<close>, \<^verbatim>\<open>None\<close>, \<^verbatim>\<open>True\<close>, \<^verbatim>\<open>False\<close>, and for a list or
  a dict the \<^verbatim>\<open>repr\<close> of its items between brackets. The \<^verbatim>\<open>repr\<close> of a string quotes it
  with \<^verbatim>\<open>'\<close> (with \<^verbatim>\<open>"\<close> when the string has a \<^verbatim>\<open>'\<close> and no \<^verbatim>\<open>"\<close>) and escapes the
  quote, the backslash and the characters that are not printable.
\<close>

definition digit_char :: "nat \<Rightarrow> char" where
  "digit_char n = ''0123456789abcdef'' ! n"

function digits :: "nat \<Rightarrow> string" where
  "digits n = (if n < 10 then [digit_char n] else digits (n div 10) @ [digit_char (n mod 10)])"
  by pat_completeness auto
termination
  by (relation "measure id") auto

definition int_str :: "int \<Rightarrow> string" where
  "int_str i = (if i < 0 then CHR ''-'' # digits (nat (- i)) else digits (nat i))"

definition printable :: "char \<Rightarrow> bool" where
  "printable c =
     (let n = (of_char c :: nat)
      in (0x20 \<le> n \<and> n < 0x7F) \<or> (0xA1 \<le> n \<and> n \<noteq> 0xAD))"

definition repr_char :: "char \<Rightarrow> char \<Rightarrow> string" where
  "repr_char q c =
     (if c = q \<or> c = CHR 0x5C then [CHR 0x5C, c]
      else if c = CHR 0x09 then [CHR 0x5C, CHR ''t'']
      else if c = CHR 0x0A then [CHR 0x5C, CHR ''n'']
      else if c = CHR 0x0D then [CHR 0x5C, CHR ''r'']
      else if printable c then [c]
      else [CHR 0x5C, CHR ''x'', digit_char (of_char c div 16), digit_char (of_char c mod 16)])"

definition repr_str :: "string \<Rightarrow> string" where
  "repr_str s =
     (let q = (if CHR 0x27 \<in> set s \<and> CHR 0x22 \<notin> set s then CHR 0x22 else CHR 0x27)
      in q # concat (map (repr_char q) s) @ [q])"

text \<open>\<^verbatim>\<open>sep.join(parts)\<close> for parts that are strings.\<close>

fun join :: "string \<Rightarrow> string list \<Rightarrow> string" where
  "join sep [] = []"
| "join sep [x] = x"
| "join sep (x # y # ys) = x @ sep @ join sep (y # ys)"

fun py_repr :: "json \<Rightarrow> string" where
  "py_repr JNull = ''None''"
| "py_repr (JBool b) = (if b then ''True'' else ''False'')"
| "py_repr (JInt i) = int_str i"
| "py_repr (JStr s) = repr_str s"
| "py_repr (JList xs) = ''['' @ join '', '' (map py_repr xs) @ '']''"
| "py_repr (JObj kvs) =
     ''{'' @ join '', '' (map (\<lambda>kv. repr_str (fst kv) @ '': '' @ py_repr (snd kv)) kvs) @ ''}''"

fun py_str :: "json \<Rightarrow> string" where
  "py_str (JStr s) = s"
| "py_str v = py_repr v"

section \<open>Dictionaries, iteration, comparison\<close>

text \<open>
  \<^verbatim>\<open>d.get(key, default)\<close>: the value of the key, the default when the key is absent, and
  \<^verbatim>\<open>AttributeError\<close> when \<open>d\<close> is not a dict (a list, a string, a number and \<^verbatim>\<open>None\<close>
  have no \<^verbatim>\<open>get\<close>). \<^verbatim>\<open>d.get(key)\<close> has the default \<^verbatim>\<open>None\<close>.
\<close>

fun dict_get :: "json \<Rightarrow> string \<Rightarrow> json \<Rightarrow> error + json" where
  "dict_get (JObj kvs) key dflt = Inr (case map_of kvs key of Some v \<Rightarrow> v | None \<Rightarrow> dflt)"
| "dict_get v key dflt = Inl (Uncaught AttributeError)"

text \<open>\<^verbatim>\<open>for x in v\<close>: the items of a list, the keys of a dict, the characters of a string;
  \<^verbatim>\<open>TypeError\<close> for a value that is not iterable.\<close>

fun py_iter :: "json \<Rightarrow> error + json list" where
  "py_iter (JList xs) = Inr xs"
| "py_iter (JObj kvs) = Inr (map (\<lambda>kv. JStr (fst kv)) kvs)"
| "py_iter (JStr s) = Inr (map (\<lambda>c. JStr [c]) s)"
| "py_iter v = Inl (Uncaught TypeError)"

text \<open>\<^verbatim>\<open>v != 0\<close>: Python's \<^verbatim>\<open>False\<close> equals \<open>0\<close>, and nothing else of JSON does.\<close>

definition differs_from_zero :: "json \<Rightarrow> bool" where
  "differs_from_zero v = (v \<noteq> JInt 0 \<and> v \<noteq> JBool False)"

text \<open>
  \<^verbatim>\<open>key in v\<close> and \<^verbatim>\<open>v[key]\<close> for a string key: a dict looks the key up; a list has the
  key when an item equals it, and a string when the key occurs in it, but neither can be
  indexed by a string; a number and \<^verbatim>\<open>None\<close> support neither.
\<close>

fun py_contains :: "json \<Rightarrow> string \<Rightarrow> error + bool" where
  "py_contains (JObj kvs) key = Inr (key \<in> fst ` set kvs)"
| "py_contains (JList xs) key = Inr (JStr key \<in> set xs)"
| "py_contains (JStr s) key = Inr (sublist key s)"
| "py_contains v key = Inl (Uncaught TypeError)"

fun py_index :: "json \<Rightarrow> string \<Rightarrow> error + json" where
  "py_index (JObj kvs) key =
     (case map_of kvs key of Some v \<Rightarrow> Inr v | None \<Rightarrow> Inl (Uncaught KeyError))"
| "py_index v key = Inl (Uncaught TypeError)"

section \<open>The fields both scripts read from the issue\<close>

text \<open>
  \<^verbatim>\<open>
  labels = [label.get("name") for label in issue.get("labels", []) if label.get("name")]
  assignees = [assignee.get("login") for assignee in issue.get("assignees", [])
               if assignee.get("login")]
  \<close>
  The comprehension keeps, in order, the values of the key that are true; an item that
  is not a dict raises.
\<close>

fun collect :: "string \<Rightarrow> json list \<Rightarrow> error + json list" where
  "collect key [] = Inr []"
| "collect key (x # xs) =
     then_do (dict_get x key JNull) (\<lambda>v.
     then_do (collect key xs) (\<lambda>vs.
     Inr (if truthy v then v # vs else vs)))"

definition names_of :: "json \<Rightarrow> string \<Rightarrow> string \<Rightarrow> error + json list" where
  "names_of issue list_key key =
     then_do (dict_get issue list_key (JList [])) (\<lambda>raw.
     then_do (py_iter raw) (\<lambda>items.
     collect key items))"

text \<open>\<^verbatim>\<open>", ".join(names)\<close> raises \<^verbatim>\<open>TypeError\<close> unless every item is a string.\<close>

fun strings_of :: "json list \<Rightarrow> error + string list" where
  "strings_of [] = Inr []"
| "strings_of (JStr s # vs) = then_do (strings_of vs) (\<lambda>ss. Inr (s # ss))"
| "strings_of (v # vs) = Inl (Uncaught TypeError)"

definition py_join :: "string \<Rightarrow> json list \<Rightarrow> error + string" where
  "py_join sep vs = then_do (strings_of vs) (\<lambda>ss. Inr (join sep ss))"

text \<open>\<^verbatim>\<open>", ".join(names) if names else None\<close>\<close>

definition joined_or_none :: "json list \<Rightarrow> error + json" where
  "joined_or_none vs =
     (if vs \<noteq> [] then then_do (py_join '', '' vs) (\<lambda>s. Inr (JStr s)) else Inr JNull)"

section \<open>Timestamps: the \<^verbatim>\<open>datetime\<close> library\<close>

text \<open>
  The scripts call \<^verbatim>\<open>datetime.fromisoformat\<close>, \<^verbatim>\<open>astimezone\<close> and \<^verbatim>\<open>isoformat\<close> of Python's
  standard library. The model below follows the library's documentation: a
  \<^verbatim>\<open>datetime\<close> is a date and a time of day in the proleptic Gregorian calendar, years 1
  to 9999, with an optional fixed offset from UTC (here in microseconds; \<open>None\<close> is a
  naive \<^verbatim>\<open>datetime\<close>).
\<close>

record datetime =
  year :: int
  month :: int
  day :: int
  hour :: int
  minute :: int
  second :: int
  microsecond :: int
  utcoffset :: "int option"

definition is_leap :: "int \<Rightarrow> bool" where
  "is_leap y = (y mod 4 = 0 \<and> (y mod 100 \<noteq> 0 \<or> y mod 400 = 0))"

definition days_in_month :: "int \<Rightarrow> int \<Rightarrow> int" where
  "days_in_month y m =
     (if m = 2 \<and> is_leap y then 29
      else [31, 28, 31, 30, 31, 30, 31, 31, 30, 31, 30, 31] ! nat (m - 1))"

definition days_before_month :: "bool \<Rightarrow> int \<Rightarrow> int" where
  "days_before_month leap m =
     [0, 31, 59, 90, 120, 151, 181, 212, 243, 273, 304, 334] ! nat (m - 1)
       + (if 2 < m \<and> leap then 1 else 0)"

definition days_before_year :: "int \<Rightarrow> int" where
  "days_before_year y = (let p = y - 1 in p * 365 + p div 4 - p div 100 + p div 400)"

text \<open>The ordinal of a day: 1 is 1 January of year 1.\<close>

definition ymd2ord :: "int \<Rightarrow> int \<Rightarrow> int \<Rightarrow> int" where
  "ymd2ord y m d = days_before_year y + days_before_month (is_leap y) m + d"

definition ord2ymd :: "int \<Rightarrow> int \<times> int \<times> int" where
  "ord2ymd ordinal =
     (let n = ordinal - 1;
          n400 = n div 146097; r400 = n mod 146097;
          n100 = r400 div 36524; r100 = r400 mod 36524;
          n4 = r100 div 1461; r4 = r100 mod 1461;
          n1 = r4 div 365; r1 = r4 mod 365;
          y = n400 * 400 + 1 + n100 * 100 + n4 * 4 + n1
      in if n1 = 4 \<or> n100 = 4 then (y - 1, 12, 31)
         else
           let leap = (n1 = 3 \<and> (n4 \<noteq> 24 \<or> n100 = 3));
               m = (r1 + 50) div 32;
               preceding = days_before_month leap m
           in if r1 < preceding
              then (y, m - 1,
                    r1 - (preceding - (if m - 1 = 2 \<and> leap then 29
                            else [31, 28, 31, 30, 31, 30, 31, 31, 30, 31, 30, 31] ! nat (m - 2))) + 1)
              else (y, m, r1 - preceding + 1))"

text \<open>What the constructor of \<^verbatim>\<open>datetime\<close> accepts.\<close>

definition valid_date :: "int \<Rightarrow> int \<Rightarrow> int \<Rightarrow> bool" where
  "valid_date y m d = (1 \<le> y \<and> y \<le> 9999 \<and> 1 \<le> m \<and> m \<le> 12 \<and> 1 \<le> d \<and> d \<le> days_in_month y m)"

definition valid_time :: "int \<Rightarrow> int \<Rightarrow> int \<Rightarrow> int \<Rightarrow> bool" where
  "valid_time h mi s us =
     (0 \<le> h \<and> h < 24 \<and> 0 \<le> mi \<and> mi < 60 \<and> 0 \<le> s \<and> s < 60 \<and> 0 \<le> us \<and> us < 1000000)"

subsection \<open>\<^verbatim>\<open>fromisoformat\<close>\<close>

text \<open>
  The grammar the documentation of Python 3.7 to 3.10 gives (the versions whose parser
  does not read the suffix \<^verbatim>\<open>Z\<close>, which is why the scripts replace it):
  \<^verbatim>\<open>YYYY-MM-DD[*HH[:MM[:SS[.fff[fff]]]][+HH:MM[:SS[.ffffff]]]]\<close>, where \<^verbatim>\<open>*\<close> is any one
  character and the sign of the offset may be \<^verbatim>\<open>-\<close>. Later versions read more forms and
  read these the same way. A string outside the grammar, or with a field out of range,
  raises \<^verbatim>\<open>ValueError\<close>: \<open>None\<close> here.
\<close>

definition is_digit :: "char \<Rightarrow> bool" where
  "is_digit c = (c \<in> set ''0123456789'')"

definition decimal :: "string \<Rightarrow> int" where
  "decimal s = foldl (\<lambda>a c. 10 * a + (int (of_char c) - 48)) 0 s"

definition parse_digits :: "string \<Rightarrow> int option" where
  "parse_digits s = (if s \<noteq> [] \<and> list_all is_digit s then Some (decimal s) else None)"

definition parse_isoformat_date :: "string \<Rightarrow> (int \<times> int \<times> int) option" where
  "parse_isoformat_date s =
     (if length s = 10 \<and> s ! 4 = CHR ''-'' \<and> s ! 7 = CHR ''-'' then
        (case (parse_digits (take 4 s), parse_digits (take 2 (drop 5 s)), parse_digits (drop 8 s)) of
           (Some y, Some m, Some d) \<Rightarrow> Some (y, m, d)
         | _ \<Rightarrow> None)
      else None)"

text \<open>\<^verbatim>\<open>HH[:MM[:SS[.fff[fff]]]]\<close>: hours, minutes, seconds, microseconds.\<close>

definition parse_hh_mm_ss_ff :: "string \<Rightarrow> (int \<times> int \<times> int \<times> int) option" where
  "parse_hh_mm_ss_ff s =
     (let n = length s;
          hh = parse_digits (take 2 s);
          mm = (if 5 \<le> n then parse_digits (take 2 (drop 3 s)) else Some 0);
          ss = (if 8 \<le> n then parse_digits (take 2 (drop 6 s)) else Some 0);
          ff = (if n = 12 then map_option (\<lambda>f. f * 1000) (parse_digits (drop 9 s))
                else if n = 15 then parse_digits (drop 9 s) else Some 0)
      in if n \<in> set [2, 5, 8, 12, 15]
            \<and> (5 \<le> n \<longrightarrow> s ! 2 = CHR '':'')
            \<and> (8 \<le> n \<longrightarrow> s ! 5 = CHR '':'')
            \<and> (12 \<le> n \<longrightarrow> s ! 8 = CHR ''.'')
         then (case (hh, mm, ss, ff) of
                 (Some h, Some mi, Some sec, Some us) \<Rightarrow> Some (h, mi, sec, us)
               | _ \<Rightarrow> None)
         else None)"

text \<open>The time of day and the offset, if any. An offset must be shorter than a day.\<close>

definition is_sign :: "char \<Rightarrow> bool" where
  "is_sign c = (c = CHR ''+'' \<or> c = CHR ''-'')"

definition parse_isoformat_time :: "string \<Rightarrow> ((int \<times> int \<times> int \<times> int) \<times> int option) option" where
  "parse_isoformat_time s =
     (let timestr = takeWhile (\<lambda>c. \<not> is_sign c) s;
          rest = dropWhile (\<lambda>c. \<not> is_sign c) s
      in case parse_hh_mm_ss_ff timestr of
           None \<Rightarrow> None
         | Some t \<Rightarrow>
             (case rest of
                [] \<Rightarrow> Some (t, None)
              | sign # tzstr \<Rightarrow>
                  if length tzstr \<in> set [5, 8, 15] then
                    (case parse_hh_mm_ss_ff tzstr of
                       None \<Rightarrow> None
                     | Some (h, mi, sec, us) \<Rightarrow>
                         let off = (if sign = CHR ''-'' then - 1 else 1)
                                     * (((h * 60 + mi) * 60 + sec) * 1000000 + us)
                         in if - 86400000000 < off \<and> off < 86400000000
                            then Some (t, Some off) else None)
                  else None))"

definition fromisoformat :: "string \<Rightarrow> datetime option" where
  "fromisoformat s =
     (case parse_isoformat_date (take 10 s) of
        None \<Rightarrow> None
      | Some (y, m, d) \<Rightarrow>
          (case (if length s = 10 then Some ((0, 0, 0, 0), None)
                 else parse_isoformat_time (drop 11 s)) of
             None \<Rightarrow> None
           | Some ((h, mi, sec, us), tz) \<Rightarrow>
               if valid_date y m d \<and> valid_time h mi sec us
               then Some \<lparr>year = y, month = m, day = d, hour = h, minute = mi, second = sec,
                          microsecond = us, utcoffset = tz\<rparr>
               else None))"

subsection \<open>\<^verbatim>\<open>astimezone(timezone.utc)\<close>\<close>

text \<open>
  A \<^verbatim>\<open>datetime\<close> whose offset is zero is returned as it is. Any other is moved by its
  offset, which for a naive \<^verbatim>\<open>datetime\<close> is the offset of the machine's local time zone
  at that time; \<^verbatim>\<open>OverflowError\<close> when the result leaves the years 1 to 9999.
\<close>

definition shifted :: "datetime \<Rightarrow> int \<Rightarrow> error + datetime" where
  "shifted d off =
     (let total = (((ymd2ord (year d) (month d) (day d) * 24 + hour d) * 60 + minute d) * 60
                     + second d) * 1000000 + microsecond d - off;
          days = total div 86400000000;
          r = total mod 86400000000
      in if 0 < days \<and> days \<le> 3652059 then
           (case ord2ymd days of (y, m, dd) \<Rightarrow>
              Inr \<lparr>year = y, month = m, day = dd,
                   hour = r div 3600000000, minute = r div 60000000 mod 60,
                   second = r div 1000000 mod 60, microsecond = r mod 1000000,
                   utcoffset = Some 0\<rparr>)
         else Inl (Uncaught OverflowError))"

definition astimezone_utc :: "(datetime \<Rightarrow> int) \<Rightarrow> datetime \<Rightarrow> error + datetime" where
  "astimezone_utc local_offset d =
     (case utcoffset d of
        Some off \<Rightarrow> if off = 0 then Inr d else shifted d off
      | None \<Rightarrow> shifted d (local_offset d))"

subsection \<open>\<^verbatim>\<open>isoformat\<close>\<close>

definition pad :: "nat \<Rightarrow> int \<Rightarrow> string" where
  "pad w n = (let ds = digits (nat n) in replicate (w - length ds) CHR ''0'' @ ds)"

definition format_offset :: "int \<Rightarrow> string" where
  "format_offset off =
     (let a = \<bar>off\<bar>; secs = a div 1000000; us = a mod 1000000
      in (if off < 0 then ''-'' else ''+'')
         @ pad 2 (secs div 3600) @ '':'' @ pad 2 (secs div 60 mod 60)
         @ (if secs mod 60 \<noteq> 0 \<or> us \<noteq> 0 then '':'' @ pad 2 (secs mod 60) else [])
         @ (if us \<noteq> 0 then ''.'' @ pad 6 us else []))"

definition isoformat :: "datetime \<Rightarrow> string" where
  "isoformat d =
     pad 4 (year d) @ ''-'' @ pad 2 (month d) @ ''-'' @ pad 2 (day d) @ ''T''
       @ pad 2 (hour d) @ '':'' @ pad 2 (minute d) @ '':'' @ pad 2 (second d)
       @ (if microsecond d \<noteq> 0 then ''.'' @ pad 6 (microsecond d) else [])
       @ (case utcoffset d of None \<Rightarrow> [] | Some off \<Rightarrow> format_offset off)"

subsection \<open>\<^verbatim>\<open>_parse_github_timestamp\<close>\<close>

text \<open>
  The Feishu script:
  \<^verbatim>\<open>
  def _parse_github_timestamp(value):
      if not value:
          return None
      parsed = datetime.fromisoformat(value.replace("Z", "+00:00"))
      return parsed.astimezone(timezone.utc).isoformat()
  \<close>
  The MySQL script returns the \<^verbatim>\<open>datetime\<close> itself:
  \<^verbatim>\<open>
      return datetime.fromisoformat(value.replace("Z", "+00:00")).astimezone(timezone.utc)
  \<close>
  \<^verbatim>\<open>replace\<close> replaces every \<^verbatim>\<open>Z\<close> of the string. A true value that is not a string has no
  \<^verbatim>\<open>replace\<close>: \<^verbatim>\<open>AttributeError\<close>.
\<close>

definition replace_Z :: "string \<Rightarrow> string" where
  "replace_Z s = concat (map (\<lambda>c. if c = CHR ''Z'' then ''+00:00'' else [c]) s)"

definition parse_github_timestamp_mysql ::
  "(datetime \<Rightarrow> int) \<Rightarrow> json \<Rightarrow> error + datetime option" where
  "parse_github_timestamp_mysql local_offset v =
     (if \<not> truthy v then Inr None
      else case v of
        JStr s \<Rightarrow>
          (case fromisoformat (replace_Z s) of
             None \<Rightarrow> Inl (Uncaught ValueError)
           | Some parsed \<Rightarrow> then_do (astimezone_utc local_offset parsed) (\<lambda>d. Inr (Some d)))
      | _ \<Rightarrow> Inl (Uncaught AttributeError))"

definition parse_github_timestamp :: "(datetime \<Rightarrow> int) \<Rightarrow> json \<Rightarrow> error + json" where
  "parse_github_timestamp local_offset v =
     (if \<not> truthy v then Inr JNull
      else case v of
        JStr s \<Rightarrow>
          (case fromisoformat (replace_Z s) of
             None \<Rightarrow> Inl (Uncaught ValueError)
           | Some parsed \<Rightarrow>
               then_do (astimezone_utc local_offset parsed) (\<lambda>d. Inr (JStr (isoformat d))))
      | _ \<Rightarrow> Inl (Uncaught AttributeError))"

text \<open>
  The timestamps of a GitHub event are in ISO 8601 form, in UTC and to the second, with
  the suffix \<^verbatim>\<open>Z\<close>: \<^verbatim>\<open>YYYY-MM-DDTHH:MM:SSZ\<close>.
\<close>

definition github_timestamp :: "int \<Rightarrow> int \<Rightarrow> int \<Rightarrow> int \<Rightarrow> int \<Rightarrow> int \<Rightarrow> string" where
  "github_timestamp y m d h mi s =
     pad 4 y @ ''-'' @ pad 2 m @ ''-'' @ pad 2 d @ ''T''
       @ pad 2 h @ '':'' @ pad 2 mi @ '':'' @ pad 2 s @ ''Z''"

section \<open>The machine a script runs on\<close>

text \<open>
  A run reads the process environment, one file, and (for a timestamp without an offset)
  the local time zone. \<^verbatim>\<open>_load_event\<close> is the same in both scripts:
  \<^verbatim>\<open>
  def _load_event(event_path):
      with open(event_path, "r", encoding="utf-8") as handle:
          return json.load(handle)
  \<close>
  A file that cannot be opened raises \<^verbatim>\<open>OSError\<close>, one that is not JSON raises
  \<^verbatim>\<open>JSONDecodeError\<close>.
\<close>

datatype file_content = No_file | Not_json | Json_file json

record host =
  environ :: environ
  files :: "string \<Rightarrow> file_content"
  local_offset :: "datetime \<Rightarrow> int"

definition load_event :: "(string \<Rightarrow> file_content) \<Rightarrow> string \<Rightarrow> error + json" where
  "load_event fs event_path =
     (case fs event_path of
        No_file \<Rightarrow> Inl (Uncaught OSError)
      | Not_json \<Rightarrow> Inl (Uncaught JSONDecodeError)
      | Json_file v \<Rightarrow> Inr v)"

definition missing_issue :: error where
  "missing_issue = SystemExit (''Event payload missing '' @ [CHR 0x27] @ ''issue'' @ [CHR 0x27])"

text \<open>
  Both scripts:
  \<^verbatim>\<open>
  if "issue" not in event:
      raise SystemExit("Event payload missing 'issue'")
  issue = event["issue"]
  \<close>
\<close>

definition issue_of :: "json \<Rightarrow> error + json" where
  "issue_of event =
     then_do (py_contains event ''issue'') (\<lambda>present.
     if \<not> present then Inl missing_issue else py_index event ''issue'')"

text \<open>A dict display \<^verbatim>\<open>{k1: v1, k2: v2, ...}\<close>: a key written twice keeps its first place
  and its last value.\<close>

definition dict_of :: "(string \<times> json) list \<Rightarrow> (string \<times> json) list" where
  "dict_of kvs = foldl (\<lambda>d kv. AList.update (fst kv) (snd kv) d) [] kvs"

section \<open>The Feishu script\<close>

subsection \<open>HTTP\<close>

text \<open>
  \<^verbatim>\<open>urlopen\<close> sends one request and returns a body, or raises: \<^verbatim>\<open>HTTPError\<close> with the
  status code, the reason and the body of the response when the status is not a success,
  and another \<^verbatim>\<open>URLError\<close> when there is no response. The remote side is a state machine
  \<open>srv\<close>; a run keeps the state of the remote side and the list of the exchanges made.
  The payload \<^verbatim>\<open>json.dumps\<close> encodes is kept as the JSON value it encodes, and a body as the
  value \<^verbatim>\<open>json.loads\<close> decodes, or \<open>Not_json_body\<close> when it raises.
  \<^verbatim>\<open>
  def _request_json(method, url, headers, payload):
      data = json.dumps(payload, ensure_ascii=True).encode("utf-8")
      request = Request(url, data=data, headers=headers, method=method)
      try:
          with urlopen(request, timeout=30) as response:
              body = response.read().decode("utf-8")
      except HTTPError as error:
          detail = error.read().decode("utf-8", errors="replace")
          raise SystemExit(f"HTTP {error.code} {error.reason}: {detail}") from error
      return json.loads(body)
  \<close>
\<close>

record request =
  http_method :: string
  url :: string
  headers :: "(string \<times> string) list"
  payload :: json

datatype outcome =
    Http_error nat string string
  | Url_error
  | Not_json_body
  | Json_body json

type_synonym 's server = "'s \<Rightarrow> request \<Rightarrow> outcome \<times> 's"

record 's net =
  remote :: 's
  exchanges :: "(request \<times> outcome) list"

definition request_json ::
  "'s server \<Rightarrow> string \<Rightarrow> string \<Rightarrow> (string \<times> string) list \<Rightarrow> json \<Rightarrow> 's net
     \<Rightarrow> (error + json) \<times> 's net" where
  "request_json srv m u hs p w =
     (let req = \<lparr>http_method = m, url = u, headers = hs, payload = p\<rparr>;
          answer = srv (remote w) req;
          w' = \<lparr>remote = snd answer, exchanges = exchanges w @ [(req, fst answer)]\<rparr>
      in case fst answer of
           Http_error code reason detail \<Rightarrow>
             (Inl (SystemExit (''HTTP '' @ digits code @ '' '' @ reason @ '': '' @ detail)), w')
         | Url_error \<Rightarrow> (Inl (Uncaught URLError), w')
         | Not_json_body \<Rightarrow> (Inl (Uncaught JSONDecodeError), w')
         | Json_body v \<Rightarrow> (Inr v, w'))"

text \<open>
  \<^verbatim>\<open>
  if response.get("code") != 0:
      raise SystemExit(f"<what failed>: {response}")
  \<close>
\<close>

definition check_code :: "string \<Rightarrow> json \<Rightarrow> error + unit" where
  "check_code what response =
     then_do (dict_get response ''code'' JNull) (\<lambda>code.
     if differs_from_zero code then Inl (SystemExit (what @ '': '' @ py_str response))
     else Inr ())"

definition json_headers :: "(string \<times> string) list" where
  "json_headers = [(''Content-Type'', ''application/json; charset=utf-8'')]"

definition auth_headers :: "json \<Rightarrow> (string \<times> string) list" where
  "auth_headers token =
     [(''Content-Type'', ''application/json; charset=utf-8''),
      (''Authorization'', ''Bearer '' @ py_str token)]"

text \<open>
  \<^verbatim>\<open>
  def _get_tenant_token(base_url, app_id, app_secret):
      url = f"{base_url}/open-apis/auth/v3/tenant_access_token/internal"
      response = _request_json("POST", url,
          {"Content-Type": "application/json; charset=utf-8"},
          {"app_id": app_id, "app_secret": app_secret})
      if response.get("code") != 0:
          raise SystemExit(f"Failed to get tenant token: {response}")
      return response["tenant_access_token"]
  \<close>
\<close>

definition get_tenant_token ::
  "'s server \<Rightarrow> string \<Rightarrow> string \<Rightarrow> string \<Rightarrow> 's net \<Rightarrow> (error + json) \<times> 's net" where
  "get_tenant_token srv base_url app_id app_secret w =
     (case request_json srv ''POST''
             (base_url @ ''/open-apis/auth/v3/tenant_access_token/internal'')
             json_headers
             (JObj [(''app_id'', JStr app_id), (''app_secret'', JStr app_secret)]) w of
        (Inl e, w') \<Rightarrow> (Inl e, w')
      | (Inr response, w') \<Rightarrow>
          (then_do (check_code ''Failed to get tenant token'' response) (\<lambda>_.
           py_index response ''tenant_access_token''), w'))"

definition records_url :: "string \<Rightarrow> string \<Rightarrow> string \<Rightarrow> string" where
  "records_url base_url app_token table_id =
     base_url @ ''/open-apis/bitable/v1/apps/'' @ app_token @ ''/tables/'' @ table_id @ ''/records''"

text \<open>\<^verbatim>\<open>items[0]\<close> of a true value: the first item of a list, the first character of a
  string; a dict read from JSON has no key \<open>0\<close>, a number has no items.\<close>

fun first_item :: "json \<Rightarrow> error + json" where
  "first_item (JList (x # xs)) = Inr x"
| "first_item (JStr (c # cs)) = Inr (JStr [c])"
| "first_item (JObj kvs) = Inl (Uncaught KeyError)"
| "first_item v = Inl (Uncaught TypeError)"

text \<open>
  \<^verbatim>\<open>
  def _bitable_search(base_url, token, app_token, table_id, issue_id, field_name):
      url = f"{base_url}/open-apis/bitable/v1/apps/{app_token}/tables/{table_id}/records/search"
      payload = {
          "filter": {"conjunction": "and",
                     "conditions": [{"field_name": field_name, "operator": "is",
                                     "value": [str(issue_id)]}]},
          "page_size": 1,
      }
      response = _request_json("POST", url, {..., "Authorization": f"Bearer {token}"}, payload)
      if response.get("code") != 0:
          raise SystemExit(f"Failed to search bitable records: {response}")
      items = response.get("data", {}).get("items", [])
      if not items:
          return None
      return items[0].get("record_id")
  \<close>
\<close>

definition search_payload :: "string \<Rightarrow> json \<Rightarrow> json" where
  "search_payload field_name issue_id =
     JObj [(''filter'',
            JObj [(''conjunction'', JStr ''and''),
                  (''conditions'',
                   JList [JObj [(''field_name'', JStr field_name),
                                (''operator'', JStr ''is''),
                                (''value'', JList [JStr (py_str issue_id)])]])]),
           (''page_size'', JInt 1)]"

definition bitable_search ::
  "'s server \<Rightarrow> string \<Rightarrow> json \<Rightarrow> string \<Rightarrow> string \<Rightarrow> json \<Rightarrow> string \<Rightarrow> 's net
     \<Rightarrow> (error + json) \<times> 's net" where
  "bitable_search srv base_url token app_token table_id issue_id field_name w =
     (case request_json srv ''POST'' (records_url base_url app_token table_id @ ''/search'')
             (auth_headers token) (search_payload field_name issue_id) w of
        (Inl e, w') \<Rightarrow> (Inl e, w')
      | (Inr response, w') \<Rightarrow>
          (then_do (check_code ''Failed to search bitable records'' response) (\<lambda>_.
           then_do (dict_get response ''data'' (JObj [])) (\<lambda>data.
           then_do (dict_get data ''items'' (JList [])) (\<lambda>items.
           if \<not> truthy items then Inr JNull
           else then_do (first_item items) (\<lambda>item. dict_get item ''record_id'' JNull)))), w'))"

text \<open>
  \<^verbatim>\<open>
  def _bitable_upsert(base_url, token, app_token, table_id, issue_id, field_name, fields):
      record_id = _bitable_search(base_url, token, app_token, table_id, issue_id, field_name)
      if record_id:
          url = f"{base_url}/open-apis/bitable/v1/apps/{app_token}/tables/{table_id}/records/{record_id}"
          method = "PUT"
      else:
          url = f"{base_url}/open-apis/bitable/v1/apps/{app_token}/tables/{table_id}/records"
          method = "POST"
      response = _request_json(method, url, {..., "Authorization": f"Bearer {token}"},
                               {"fields": fields})
      if response.get("code") != 0:
          raise SystemExit(f"Failed to upsert bitable record: {response}")
  \<close>
\<close>

definition bitable_upsert ::
  "'s server \<Rightarrow> string \<Rightarrow> json \<Rightarrow> string \<Rightarrow> string \<Rightarrow> json \<Rightarrow> string
     \<Rightarrow> (string \<times> json) list \<Rightarrow> 's net \<Rightarrow> (error + unit) \<times> 's net" where
  "bitable_upsert srv base_url token app_token table_id issue_id field_name flds w =
     (case bitable_search srv base_url token app_token table_id issue_id field_name w of
        (Inl e, w1) \<Rightarrow> (Inl e, w1)
      | (Inr record_id, w1) \<Rightarrow>
          (case (if truthy record_id
                 then request_json srv ''PUT''
                        (records_url base_url app_token table_id @ ''/'' @ py_str record_id)
                        (auth_headers token) (JObj [(''fields'', JObj flds)]) w1
                 else request_json srv ''POST'' (records_url base_url app_token table_id)
                        (auth_headers token) (JObj [(''fields'', JObj flds)]) w1) of
             (Inl e, w2) \<Rightarrow> (Inl e, w2)
           | (Inr response, w2) \<Rightarrow>
               (check_code ''Failed to upsert bitable record'' response, w2)))"

text \<open>
  \<^verbatim>\<open>
  def _bitable_create(base_url, token, app_token, table_id, fields):
      url = f"{base_url}/open-apis/bitable/v1/apps/{app_token}/tables/{table_id}/records"
      response = _request_json("POST", url, {..., "Authorization": f"Bearer {token}"},
                               {"fields": fields})
      if response.get("code") != 0:
          raise SystemExit(f"Failed to create bitable record: {response}")
  \<close>
\<close>

definition bitable_create ::
  "'s server \<Rightarrow> string \<Rightarrow> json \<Rightarrow> string \<Rightarrow> string \<Rightarrow> (string \<times> json) list \<Rightarrow> 's net
     \<Rightarrow> (error + unit) \<times> 's net" where
  "bitable_create srv base_url token app_token table_id flds w =
     (case request_json srv ''POST'' (records_url base_url app_token table_id)
             (auth_headers token) (JObj [(''fields'', JObj flds)]) w of
        (Inl e, w') \<Rightarrow> (Inl e, w')
      | (Inr response, w') \<Rightarrow> (check_code ''Failed to create bitable record'' response, w'))"

subsection \<open>\<^verbatim>\<open>main\<close>\<close>

text \<open>
  The configuration, lines 157 to 164 of the script:
  \<^verbatim>\<open>
  event_path = _env("GITHUB_EVENT_PATH")
  base_url = os.getenv("FEISHU_BASE_URL") or "https://open.feishu.cn"
  app_id = _env("FEISHU_APP_ID")
  app_secret = _env("FEISHU_APP_SECRET")
  app_token = _env("FEISHU_APP_TOKEN")
  table_id = _env("FEISHU_TABLE_ID")
  upsert = os.getenv("FEISHU_UPSERT", "1") == "1"
  issue_id_field = os.getenv("FEISHU_FIELD_ISSUE_ID", "Issue ID")
  \<close>
\<close>

record config =
  event_path :: string
  base_url :: string
  app_id :: string
  app_secret :: string
  app_token :: string
  table_id :: string
  upsert :: bool
  issue_id_field :: string

definition feishu_config :: "environ \<Rightarrow> error + config" where
  "feishu_config e =
     then_do (env e ''GITHUB_EVENT_PATH'' None) (\<lambda>path.
     then_do (env e ''FEISHU_APP_ID'' None) (\<lambda>aid.
     then_do (env e ''FEISHU_APP_SECRET'' None) (\<lambda>secret.
     then_do (env e ''FEISHU_APP_TOKEN'' None) (\<lambda>atoken.
     then_do (env e ''FEISHU_TABLE_ID'' None) (\<lambda>tid.
     Inr \<lparr>event_path = path,
          base_url = (case getenv e ''FEISHU_BASE_URL'' None of
                        None \<Rightarrow> ''https://open.feishu.cn''
                      | Some u \<Rightarrow> if u = [] then ''https://open.feishu.cn'' else u),
          app_id = aid, app_secret = secret, app_token = atoken, table_id = tid,
          upsert = (getenv_or e ''FEISHU_UPSERT'' ''1'' = ''1''),
          issue_id_field = getenv_or e ''FEISHU_FIELD_ISSUE_ID'' ''Issue ID''\<rparr>)))))"

text \<open>
  The record, lines 170 to 194:
  \<^verbatim>\<open>
  issue = event["issue"]
  action = event.get("action", "unknown")
  labels = [...]
  assignees = [...]
  fields = {
      issue_id_field: str(issue.get("id")),
      "Issue Number": issue.get("number"),
      "Title": issue.get("title"),
      "State": issue.get("state"),
      "URL": issue.get("html_url"),
      "User": issue.get("user", {}).get("login"),
      "Labels": ", ".join(labels) if labels else None,
      "Assignees": ", ".join(assignees) if assignees else None,
      "Action": action,
      "Created At": _parse_github_timestamp(issue.get("created_at")),
      "Updated At": _parse_github_timestamp(issue.get("updated_at")),
      "Closed At": _parse_github_timestamp(issue.get("closed_at")),
      "Body": _truncate(issue.get("body"), 5000),
  }
  \<close>
  The result is the issue id that \<^verbatim>\<open>main\<close> passes to the search, \<^verbatim>\<open>issue.get("id")\<close>, and
  the fields.
\<close>

definition feishu_fields ::
  "(datetime \<Rightarrow> int) \<Rightarrow> string \<Rightarrow> json \<Rightarrow> error + json \<times> (string \<times> json) list" where
  "feishu_fields lo id_field event =
     then_do (issue_of event) (\<lambda>issue.
     then_do (dict_get event ''action'' (JStr ''unknown'')) (\<lambda>action.
     then_do (names_of issue ''labels'' ''name'') (\<lambda>labels.
     then_do (names_of issue ''assignees'' ''login'') (\<lambda>assignees.
     then_do (dict_get issue ''id'' JNull) (\<lambda>issue_id.
     then_do (dict_get issue ''number'' JNull) (\<lambda>number.
     then_do (dict_get issue ''title'' JNull) (\<lambda>title.
     then_do (dict_get issue ''state'' JNull) (\<lambda>state.
     then_do (dict_get issue ''html_url'' JNull) (\<lambda>html_url.
     then_do (dict_get issue ''user'' (JObj [])) (\<lambda>user.
     then_do (dict_get user ''login'' JNull) (\<lambda>login.
     then_do (joined_or_none labels) (\<lambda>labels_text.
     then_do (joined_or_none assignees) (\<lambda>assignees_text.
     then_do (dict_get issue ''created_at'' JNull) (\<lambda>created.
     then_do (parse_github_timestamp lo created) (\<lambda>created_at.
     then_do (dict_get issue ''updated_at'' JNull) (\<lambda>updated.
     then_do (parse_github_timestamp lo updated) (\<lambda>updated_at.
     then_do (dict_get issue ''closed_at'' JNull) (\<lambda>closed.
     then_do (parse_github_timestamp lo closed) (\<lambda>closed_at.
     then_do (dict_get issue ''body'' JNull) (\<lambda>body.
     then_do (truncate_value body 5000) (\<lambda>body_text.
     Inr (issue_id,
          dict_of [(id_field, JStr (py_str issue_id)),
                   (''Issue Number'', number),
                   (''Title'', title),
                   (''State'', state),
                   (''URL'', html_url),
                   (''User'', login),
                   (''Labels'', labels_text),
                   (''Assignees'', assignees_text),
                   (''Action'', action),
                   (''Created At'', created_at),
                   (''Updated At'', updated_at),
                   (''Closed At'', closed_at),
                   (''Body'', body_text)]))))))))))))))))))))))"

text \<open>
  The run: configuration, event, record, and then, lines 196 to 202,
  \<^verbatim>\<open>
  token = _get_tenant_token(base_url, app_id, app_secret)
  if upsert:
      _bitable_upsert(base_url, token, app_token, table_id, issue.get("id"), issue_id_field, fields)
  else:
      _bitable_create(base_url, token, app_token, table_id, fields)
  \<close>
\<close>

definition feishu_plan :: "host \<Rightarrow> error + config \<times> json \<times> (string \<times> json) list" where
  "feishu_plan h =
     then_do (feishu_config (environ h)) (\<lambda>c.
     then_do (load_event (files h) (event_path c)) (\<lambda>event.
     then_do (feishu_fields (local_offset h) (issue_id_field c) event) (\<lambda>r.
     Inr (c, r))))"

definition main_feishu :: "host \<Rightarrow> 's server \<Rightarrow> 's net \<Rightarrow> (error + unit) \<times> 's net" where
  "main_feishu h srv w =
     (case feishu_plan h of
        Inl e \<Rightarrow> (Inl e, w)
      | Inr (c, issue_id, flds) \<Rightarrow>
          (case get_tenant_token srv (base_url c) (app_id c) (app_secret c) w of
             (Inl e, w1) \<Rightarrow> (Inl e, w1)
           | (Inr token, w1) \<Rightarrow>
               if upsert c
               then bitable_upsert srv (base_url c) token (app_token c) (table_id c)
                      issue_id (issue_id_field c) flds w1
               else bitable_create srv (base_url c) token (app_token c) (table_id c) flds w1))"

subsection \<open>Refused responses\<close>

text \<open>
  A response is refused when \<^verbatim>\<open>urlopen\<close> raises \<^verbatim>\<open>HTTPError\<close> for it (its status is not a
  success) or when it is a JSON object whose \<^verbatim>\<open>code\<close> differs from 0 (an absent \<^verbatim>\<open>code\<close> is
  \<^verbatim>\<open>None\<close>, which differs from 0). A run reports a refused response when it ends with
  \<^verbatim>\<open>SystemExit\<close> and the message the scripts build from the response: the status, the
  reason and the body of an HTTP error, or the whole JSON response after one of the four
  messages of the script.
\<close>

definition refused :: "outcome \<Rightarrow> bool" where
  "refused out =
     (case out of
        Http_error code reason detail \<Rightarrow> True
      | Json_body (JObj kvs) \<Rightarrow>
          differs_from_zero (case map_of kvs ''code'' of Some v \<Rightarrow> v | None \<Rightarrow> JNull)
      | _ \<Rightarrow> False)"

definition failure_messages :: "string list" where
  "failure_messages =
     [''Failed to get tenant token'', ''Failed to search bitable records'',
      ''Failed to upsert bitable record'', ''Failed to create bitable record'']"

definition reports :: "error + 'a \<Rightarrow> outcome \<Rightarrow> bool" where
  "reports r out =
     (case out of
        Http_error code reason detail \<Rightarrow>
          r = Inl (SystemExit (''HTTP '' @ digits code @ '' '' @ reason @ '': '' @ detail))
      | Json_body v \<Rightarrow>
          r \<in> set (map (\<lambda>what. Inl (SystemExit (what @ '': '' @ py_str v))) failure_messages)
      | _ \<Rightarrow> False)"

subsection \<open>The table on the remote side\<close>

text \<open>
  The claim about repeated runs is about the table the requests act on, under the
  assumption that the service answers faithfully. The assumption is this state machine:
  a table is the list of its records, each a dict of fields; the record at position \<open>i\<close>
  has the id \<^verbatim>\<open>rec\<close> followed by \<open>i\<close>; records are never removed. The token endpoint
  returns the token; a search lists, up to the page size, the records whose named field
  is the text asked for; a \<^verbatim>\<open>POST\<close> to the records appends a record; a \<^verbatim>\<open>PUT\<close> to a record
  sets the fields given and keeps the others; any other request is answered 404.
\<close>

record bitable =
  svc_base_url :: string
  svc_app_token :: string
  svc_table_id :: string
  svc_token :: string
  records :: "(string \<times> json) list list"

definition record_id :: "nat \<Rightarrow> string" where
  "record_id i = ''rec'' @ digits i"

definition record_item :: "bitable \<Rightarrow> nat \<Rightarrow> json" where
  "record_item t i = JObj [(''record_id'', JStr (record_id i)), (''fields'', JObj (records t ! i))]"

definition matches :: "string \<Rightarrow> string \<Rightarrow> (string \<times> json) list \<Rightarrow> bool" where
  "matches field_name text r = (map_of r field_name = Some (JStr text))"

definition ok_body :: "json \<Rightarrow> outcome" where
  "ok_body data = Json_body (JObj [(''code'', JInt 0), (''msg'', JStr ''success''), (''data'', data)])"

definition bad_request :: outcome where
  "bad_request = Http_error 400 ''Bad Request'' ''malformed request''"

text \<open>The one condition the search request carries: the field name and the text.\<close>

definition condition_of :: "json \<Rightarrow> (string \<times> string \<times> nat) option" where
  "condition_of p =
     (case p of
        JObj p_kvs \<Rightarrow>
          (case (map_of p_kvs ''filter'', map_of p_kvs ''page_size'') of
             (Some (JObj f), Some (JInt n)) \<Rightarrow>
               (case map_of f ''conditions'' of
                  Some (JList [JObj c]) \<Rightarrow>
                    (case (map_of c ''field_name'', map_of c ''operator'', map_of c ''value'') of
                       (Some (JStr name), Some (JStr op), Some (JList [JStr text])) \<Rightarrow>
                         if op = ''is'' \<and> 0 < n then Some (name, text, nat n) else None
                     | _ \<Rightarrow> None)
                | _ \<Rightarrow> None)
           | _ \<Rightarrow> None)
      | _ \<Rightarrow> None)"

definition merge_fields :: "(string \<times> json) list \<Rightarrow> (string \<times> json) list \<Rightarrow> (string \<times> json) list" where
  "merge_fields old new = foldl (\<lambda>d kv. AList.update (fst kv) (snd kv) d) old new"

definition bitable_service :: "bitable server" where
  "bitable_service t req =
     (let rs = records_url (svc_base_url t) (svc_app_token t) (svc_table_id t)
      in if http_method req = ''POST''
            \<and> url req = svc_base_url t @ ''/open-apis/auth/v3/tenant_access_token/internal''
         then (Json_body (JObj [(''code'', JInt 0), (''msg'', JStr ''ok''),
                                (''tenant_access_token'', JStr (svc_token t)),
                                (''expire'', JInt 7200)]), t)
         else if map_of (headers req) ''Authorization'' \<noteq> Some (''Bearer '' @ svc_token t)
         then (Json_body (JObj [(''code'', JInt 99991663), (''msg'', JStr ''invalid token'')]), t)
         else if http_method req = ''POST'' \<and> url req = rs @ ''/search''
         then (case condition_of (payload req) of
                 None \<Rightarrow> (bad_request, t)
               | Some (name, text, page_size) \<Rightarrow>
                   (ok_body (JObj [(''items'',
                       JList (map (record_item t)
                                (take page_size
                                   (filter (\<lambda>i. matches name text (records t ! i))
                                      [0..<length (records t)]))))]), t))
         else if http_method req = ''POST'' \<and> url req = rs
         then (case payload req of
                 JObj [(k, JObj flds)] \<Rightarrow>
                   if k = ''fields''
                   then (ok_body (JObj [(''record'',
                            JObj [(''record_id'', JStr (record_id (length (records t)))),
                                  (''fields'', JObj flds)])]),
                         t\<lparr>records := records t @ [flds]\<rparr>)
                   else (bad_request, t)
               | _ \<Rightarrow> (bad_request, t))
         else if http_method req = ''PUT''
         then (case (find (\<lambda>i. url req = rs @ ''/'' @ record_id i) [0..<length (records t)],
                     payload req) of
                 (Some i, JObj [(k, JObj flds)]) \<Rightarrow>
                   if k = ''fields''
                   then (ok_body (JObj [(''record'',
                            JObj [(''record_id'', JStr (record_id i)),
                                  (''fields'', JObj (merge_fields (records t ! i) flds))])]),
                         t\<lparr>records := (records t)[i := merge_fields (records t ! i) flds]\<rparr>)
                   else (bad_request, t)
               | (Some i, _) \<Rightarrow> (bad_request, t)
               | (None, _) \<Rightarrow> (Http_error 404 ''Not Found'' [], t))
         else (Http_error 404 ''Not Found'' [], t))"

text \<open>How many records of the table carry the text in the field.\<close>

definition matching :: "string \<Rightarrow> string \<Rightarrow> bitable \<Rightarrow> nat" where
  "matching field_name text t = length (filter (matches field_name text) (records t))"

section \<open>The MySQL script\<close>

subsection \<open>\<^verbatim>\<open>json.dumps\<close> and \<^verbatim>\<open>int\<close>\<close>

text \<open>
  \<^verbatim>\<open>json.dumps(v, ensure_ascii=True)\<close>: the JSON text of a value, items separated by
  \<^verbatim>\<open>", "\<close> and a key from its value by \<^verbatim>\<open>": "\<close>; in a string the quote, the backslash and
  every character outside the printable ASCII range are escaped.
\<close>

definition dumps_char :: "char \<Rightarrow> string" where
  "dumps_char c =
     (if c = CHR 0x22 then [CHR 0x5C, CHR 0x22]
      else if c = CHR 0x5C then [CHR 0x5C, CHR 0x5C]
      else if c = CHR 0x0A then [CHR 0x5C, CHR ''n'']
      else if c = CHR 0x0D then [CHR 0x5C, CHR ''r'']
      else if c = CHR 0x09 then [CHR 0x5C, CHR ''t'']
      else if c = CHR 0x08 then [CHR 0x5C, CHR ''b'']
      else if c = CHR 0x0C then [CHR 0x5C, CHR ''f'']
      else if 0x20 \<le> (of_char c :: nat) \<and> (of_char c :: nat) \<le> 0x7E then [c]
      else [CHR 0x5C, CHR ''u'', CHR ''0'', CHR ''0'',
            digit_char (of_char c div 16), digit_char (of_char c mod 16)])"

definition dumps_str :: "string \<Rightarrow> string" where
  "dumps_str s = CHR 0x22 # concat (map dumps_char s) @ [CHR 0x22]"

fun json_dumps :: "json \<Rightarrow> string" where
  "json_dumps JNull = ''null''"
| "json_dumps (JBool b) = (if b then ''true'' else ''false'')"
| "json_dumps (JInt i) = int_str i"
| "json_dumps (JStr s) = dumps_str s"
| "json_dumps (JList xs) = ''['' @ join '', '' (map json_dumps xs) @ '']''"
| "json_dumps (JObj kvs) =
     ''{'' @ join '', '' (map (\<lambda>kv. dumps_str (fst kv) @ '': '' @ json_dumps (snd kv)) kvs) @ ''}''"

text \<open>
  \<^verbatim>\<open>int(s)\<close> for a string: white space around, a sign, and decimal digits in which single
  underscores may separate digits; \<^verbatim>\<open>ValueError\<close> otherwise.
\<close>

definition is_space :: "char \<Rightarrow> bool" where
  "is_space c = ((of_char c :: nat) \<in> set [9, 10, 11, 12, 13, 28, 29, 30, 31, 32, 133, 160])"

definition strip :: "string \<Rightarrow> string" where
  "strip s = rev (dropWhile is_space (rev (dropWhile is_space s)))"

fun single_underscores :: "string \<Rightarrow> bool" where
  "single_underscores (a # b # cs) =
     ((a \<noteq> CHR ''_'' \<or> b \<noteq> CHR ''_'') \<and> single_underscores (b # cs))"
| "single_underscores cs = True"

definition py_int :: "string \<Rightarrow> error + int" where
  "py_int s =
     (let t = strip s;
          negative = (t \<noteq> [] \<and> hd t = CHR ''-'');
          body = (if t \<noteq> [] \<and> is_sign (hd t) then tl t else t)
      in if body \<noteq> [] \<and> is_digit (hd body) \<and> is_digit (last body)
            \<and> list_all (\<lambda>c. is_digit c \<or> c = CHR ''_'') body \<and> single_underscores body
         then Inr ((if negative then - 1 else 1) * decimal (filter is_digit body))
         else Inl (Uncaught ValueError))"

subsection \<open>The database\<close>

text \<open>
  A parameter of the statement is a Python value or a \<^verbatim>\<open>datetime\<close>. A row of
  \<^verbatim>\<open>github_issues\<close> has the fourteen columns the statement sets and
  \<^verbatim>\<open>event_received_at\<close>, which the server sets from its clock.
\<close>

datatype param = Py json | Moment datetime

record issue_row =
  c_id :: param
  c_number :: param
  c_title :: param
  c_body :: param
  c_state :: param
  c_created_at :: param
  c_updated_at :: param
  c_closed_at :: param
  c_url :: param
  c_user_login :: param
  c_labels :: param
  c_assignees :: param
  c_event_action :: param
  c_payload :: param

text \<open>
  The table is a map from the primary key to the row and its \<^verbatim>\<open>event_received_at\<close>;
  \<open>None\<close> for the table means that \<^verbatim>\<open>github_issues\<close> does not exist. The model of the server
  is the one of MySQL with \<^verbatim>\<open>autocommit\<close> off, as the connector opens a connection:
  \<^item> \<open>stored\<close> is what is committed, \<open>working\<close> what the open connection sees;
  \<^item> \<^verbatim>\<open>CREATE TABLE IF NOT EXISTS\<close> creates the table when it is missing, and, being a
    data definition statement, commits at once;
  \<^item> \<^verbatim>\<open>INSERT ... ON DUPLICATE KEY UPDATE\<close> writes the row at its key in \<open>working\<close>, with
    \<^verbatim>\<open>event_received_at\<close> the time of the server, whether the key is new
    (\<^verbatim>\<open>DEFAULT CURRENT_TIMESTAMP\<close>) or not (\<^verbatim>\<open>event_received_at = CURRENT_TIMESTAMP\<close>); the
    statement is rejected when the id is not an integer of the range of \<^verbatim>\<open>BIGINT\<close> (a
    primary key is not \<^verbatim>\<open>NULL\<close>; the conversion of other values to a key is not modelled);
  \<^item> \<^verbatim>\<open>commit\<close> stores what the connection sees; \<^verbatim>\<open>close\<close> drops it.
  Any call but \<^verbatim>\<open>close\<close> may fail for a reason of the server's or the connector's: the
  calls that do are given by \<open>faults\<close>. Every call is logged with its success.
\<close>

type_synonym table = "int \<rightharpoonup> issue_row \<times> nat"

datatype db_call =
    Connect string int string string string
  | Cursor
  | Create_table
  | Upsert issue_row
  | Commit
  | Close

record db =
  stored :: "table option"
  working :: "table option"
  connected :: bool
  calls :: "(db_call \<times> bool) list"

type_synonym faults = "db_call \<Rightarrow> bool"

definition logged :: "db_call \<Rightarrow> bool \<Rightarrow> db \<Rightarrow> db" where
  "logged c ok d = d\<lparr>calls := calls d @ [(c, ok)]\<rparr>"

definition failed :: "db_call \<Rightarrow> db \<Rightarrow> (error + unit) \<times> db" where
  "failed c d = (Inl (Uncaught DatabaseError), logged c False d)"

definition db_connect :: "faults \<Rightarrow> string \<times> int \<times> string \<times> string \<times> string \<Rightarrow> db \<Rightarrow> (error + unit) \<times> db" where
  "db_connect faults args d =
     (case args of (host, port, user, password, database) \<Rightarrow>
        let c = Connect host port user password database
        in if faults c then failed c d
           else (Inr (), logged c True (d\<lparr>connected := True, working := stored d\<rparr>)))"

definition db_cursor :: "faults \<Rightarrow> db \<Rightarrow> (error + unit) \<times> db" where
  "db_cursor faults d =
     (if faults Cursor \<or> \<not> connected d then failed Cursor d
      else (Inr (), logged Cursor True d))"

definition key_of :: "param \<Rightarrow> int option" where
  "key_of p =
     (case p of
        Py (JInt n) \<Rightarrow> if - (2 ^ 63) \<le> n \<and> n < 2 ^ 63 then Some n else None
      | Py (JBool b) \<Rightarrow> Some (if b then 1 else 0)
      | _ \<Rightarrow> None)"

definition db_upsert :: "faults \<Rightarrow> nat \<Rightarrow> issue_row \<Rightarrow> db \<Rightarrow> (error + unit) \<times> db" where
  "db_upsert faults now row d =
     (if faults (Upsert row) \<or> \<not> connected d then failed (Upsert row) d
      else case (working d, key_of (c_id row)) of
             (Some t, Some k) \<Rightarrow>
               (Inr (), logged (Upsert row) True (d\<lparr>working := Some (t(k \<mapsto> (row, now)))\<rparr>))
           | _ \<Rightarrow> failed (Upsert row) d)"

definition db_commit :: "faults \<Rightarrow> db \<Rightarrow> (error + unit) \<times> db" where
  "db_commit faults d =
     (if faults Commit \<or> \<not> connected d then failed Commit d
      else (Inr (), logged Commit True (d\<lparr>stored := working d\<rparr>)))"

definition db_close :: "db \<Rightarrow> db" where
  "db_close d = logged Close True (d\<lparr>connected := False, working := None\<rparr>)"

text \<open>The rows of the table; there is none when the table does not exist.\<close>

definition rows_of :: "table option \<Rightarrow> table" where
  "rows_of t = (case t of None \<Rightarrow> Map.empty | Some rows \<Rightarrow> rows)"

fun is_connect :: "db_call \<Rightarrow> bool" where
  "is_connect (Connect host port user password database) = True"
| "is_connect c = False"

subsection \<open>\<^verbatim>\<open>_connect_mysql\<close> and \<^verbatim>\<open>_ensure_schema\<close>\<close>

text \<open>
  \<^verbatim>\<open>
  def _connect_mysql():
      return mysql.connector.connect(
          host=_env("MYSQL_HOST"),
          port=int(os.getenv("MYSQL_PORT", "3306")),
          user=_env("MYSQL_USER"),
          password=_env("MYSQL_PASSWORD"),
          database=_env("MYSQL_DATABASE"),
      )
  \<close>
  The arguments are evaluated in the order written, before the call.
\<close>

definition connect_args :: "environ \<Rightarrow> error + string \<times> int \<times> string \<times> string \<times> string" where
  "connect_args e =
     then_do (env e ''MYSQL_HOST'' None) (\<lambda>host.
     then_do (py_int (getenv_or e ''MYSQL_PORT'' ''3306'')) (\<lambda>port.
     then_do (env e ''MYSQL_USER'' None) (\<lambda>user.
     then_do (env e ''MYSQL_PASSWORD'' None) (\<lambda>password.
     then_do (env e ''MYSQL_DATABASE'' None) (\<lambda>database.
     Inr (host, port, user, password, database))))))"

definition connect_mysql :: "environ \<Rightarrow> faults \<Rightarrow> db \<Rightarrow> (error + unit) \<times> db" where
  "connect_mysql e faults d =
     (case connect_args e of
        Inl err \<Rightarrow> (Inl err, d)
      | Inr args \<Rightarrow> db_connect faults args d)"

text \<open>
  \<^verbatim>\<open>
  def _ensure_schema(cursor):
      cursor.execute("""CREATE TABLE IF NOT EXISTS github_issues (
          id BIGINT PRIMARY KEY, number INT, title TEXT, body MEDIUMTEXT, state VARCHAR(20),
          created_at DATETIME, updated_at DATETIME, closed_at DATETIME NULL, url VARCHAR(500),
          user_login VARCHAR(100), labels JSON, assignees JSON, event_action VARCHAR(50),
          event_received_at TIMESTAMP DEFAULT CURRENT_TIMESTAMP, payload JSON)""")
  \<close>
\<close>

definition ensure_schema :: "faults \<Rightarrow> db \<Rightarrow> (error + unit) \<times> db" where
  "ensure_schema faults d =
     (if faults Create_table \<or> \<not> connected d then failed Create_table d
      else let t = (case working d of None \<Rightarrow> Map.empty | Some rows \<Rightarrow> rows)
           in (Inr (), logged Create_table True (d\<lparr>stored := Some t, working := Some t\<rparr>)))"

subsection \<open>\<^verbatim>\<open>main\<close>\<close>

text \<open>
  Lines 68 to 90, before the connection is opened:
  \<^verbatim>\<open>
  event_path = _env("GITHUB_EVENT_PATH")
  event = _load_event(event_path)
  if "issue" not in event:
      raise SystemExit("Event payload missing 'issue'")
  issue = event["issue"]
  action = event.get("action", "unknown")
  labels = [...]
  assignees = [...]
  payload_json = json.dumps(event, ensure_ascii=True)
  labels_json = json.dumps(labels, ensure_ascii=True)
  assignees_json = json.dumps(assignees, ensure_ascii=True)
  created_at = _parse_github_timestamp(issue.get("created_at"))
  updated_at = _parse_github_timestamp(issue.get("updated_at"))
  closed_at = _parse_github_timestamp(issue.get("closed_at"))
  \<close>
\<close>

record prepared =
  p_issue :: json
  p_action :: json
  p_payload_json :: string
  p_labels_json :: string
  p_assignees_json :: string
  p_created_at :: "datetime option"
  p_updated_at :: "datetime option"
  p_closed_at :: "datetime option"

definition mysql_prepare :: "host \<Rightarrow> error + prepared" where
  "mysql_prepare h =
     then_do (env (environ h) ''GITHUB_EVENT_PATH'' None) (\<lambda>path.
     then_do (load_event (files h) path) (\<lambda>event.
     then_do (issue_of event) (\<lambda>issue.
     then_do (dict_get event ''action'' (JStr ''unknown'')) (\<lambda>action.
     then_do (names_of issue ''labels'' ''name'') (\<lambda>labels.
     then_do (names_of issue ''assignees'' ''login'') (\<lambda>assignees.
     then_do (dict_get issue ''created_at'' JNull) (\<lambda>created.
     then_do (parse_github_timestamp_mysql (local_offset h) created) (\<lambda>created_at.
     then_do (dict_get issue ''updated_at'' JNull) (\<lambda>updated.
     then_do (parse_github_timestamp_mysql (local_offset h) updated) (\<lambda>updated_at.
     then_do (dict_get issue ''closed_at'' JNull) (\<lambda>closed.
     then_do (parse_github_timestamp_mysql (local_offset h) closed) (\<lambda>closed_at.
     Inr \<lparr>p_issue = issue, p_action = action,
          p_payload_json = json_dumps event,
          p_labels_json = json_dumps (JList labels),
          p_assignees_json = json_dumps (JList assignees),
          p_created_at = created_at, p_updated_at = updated_at,
          p_closed_at = closed_at\<rparr>))))))))))))"

text \<open>
  The parameters of the statement, lines 146 to 161, evaluated after the schema
  statement and before the insert:
  \<^verbatim>\<open>
  {"id": issue.get("id"), "number": issue.get("number"), "title": issue.get("title"),
   "body": issue.get("body"), "state": issue.get("state"), "created_at": created_at,
   "updated_at": updated_at, "closed_at": closed_at, "url": issue.get("html_url"),
   "user_login": issue.get("user", {}).get("login"), "labels": labels_json,
   "assignees": assignees_json, "event_action": action, "payload": payload_json}
  \<close>
\<close>

definition moment :: "datetime option \<Rightarrow> param" where
  "moment d = (case d of None \<Rightarrow> Py JNull | Some t \<Rightarrow> Moment t)"

definition mysql_params :: "prepared \<Rightarrow> error + issue_row" where
  "mysql_params p =
     then_do (dict_get (p_issue p) ''id'' JNull) (\<lambda>ident.
     then_do (dict_get (p_issue p) ''number'' JNull) (\<lambda>number.
     then_do (dict_get (p_issue p) ''title'' JNull) (\<lambda>title.
     then_do (dict_get (p_issue p) ''body'' JNull) (\<lambda>body.
     then_do (dict_get (p_issue p) ''state'' JNull) (\<lambda>state.
     then_do (dict_get (p_issue p) ''html_url'' JNull) (\<lambda>html_url.
     then_do (dict_get (p_issue p) ''user'' (JObj [])) (\<lambda>user.
     then_do (dict_get user ''login'' JNull) (\<lambda>login.
     Inr \<lparr>c_id = Py ident, c_number = Py number, c_title = Py title, c_body = Py body,
          c_state = Py state, c_created_at = moment (p_created_at p),
          c_updated_at = moment (p_updated_at p), c_closed_at = moment (p_closed_at p),
          c_url = Py html_url, c_user_login = Py login,
          c_labels = Py (JStr (p_labels_json p)),
          c_assignees = Py (JStr (p_assignees_json p)),
          c_event_action = Py (p_action p),
          c_payload = Py (JStr (p_payload_json p))\<rparr>))))))))"

text \<open>
  Lines 92 to 165:
  \<^verbatim>\<open>
  connection = _connect_mysql()
  try:
      cursor = connection.cursor()
      _ensure_schema(cursor)
      cursor.execute("INSERT INTO github_issues (...) VALUES (...)
                      ON DUPLICATE KEY UPDATE ..., event_received_at = CURRENT_TIMESTAMP",
                     {...})
      connection.commit()
  finally:
      connection.close()
  \<close>
  \<open>now\<close> is the time of the server during the run.
\<close>

definition in_connection :: "faults \<Rightarrow> nat \<Rightarrow> prepared \<Rightarrow> db \<Rightarrow> (error + unit) \<times> db" where
  "in_connection faults now p d =
     (case db_cursor faults d of
        (Inl e, d1) \<Rightarrow> (Inl e, d1)
      | (Inr _, d1) \<Rightarrow>
          (case ensure_schema faults d1 of
             (Inl e, d2) \<Rightarrow> (Inl e, d2)
           | (Inr _, d2) \<Rightarrow>
               (case mysql_params p of
                  Inl e \<Rightarrow> (Inl e, d2)
                | Inr row \<Rightarrow>
                    (case db_upsert faults now row d2 of
                       (Inl e, d3) \<Rightarrow> (Inl e, d3)
                     | (Inr _, d3) \<Rightarrow> db_commit faults d3))))"

definition main_mysql :: "host \<Rightarrow> faults \<Rightarrow> nat \<Rightarrow> db \<Rightarrow> (error + unit) \<times> db" where
  "main_mysql h faults now d =
     (case mysql_prepare h of
        Inl e \<Rightarrow> (Inl e, d)
      | Inr p \<Rightarrow>
          (case connect_mysql (environ h) faults d of
             (Inl e, d1) \<Rightarrow> (Inl e, d1)
           | (Inr _, d1) \<Rightarrow>
               (case in_connection faults now p d1 of
                  (r, d2) \<Rightarrow> (r, db_close d2))))"

section \<open>A sample run\<close>

text \<open>
  One event, one machine, one table and one database, on which the statements below are
  evaluated: an issue with the labels \<^verbatim>\<open>bug\<close> and \<^verbatim>\<open>P1\<close> and the assignee \<^verbatim>\<open>alice\<close>, a
  machine whose environment has every variable the two scripts require and whose local
  time is UTC, an empty Bitable table, and a database without the table.
\<close>

definition example_issue :: json where
  "example_issue =
     JObj [(''id'', JInt 7), (''number'', JInt 3), (''title'', JStr ''Crash on start''),
           (''state'', JStr ''open''), (''html_url'', JStr ''https://github.com/o/r/issues/3''),
           (''user'', JObj [(''login'', JStr ''bob'')]),
           (''labels'', JList [JObj [(''name'', JStr ''bug'')], JObj [(''name'', JStr ''P1'')]]),
           (''assignees'', JList [JObj [(''login'', JStr ''alice'')]]),
           (''created_at'', JStr ''2024-01-02T03:04:05Z''),
           (''updated_at'', JStr ''2024-01-02T03:04:05Z''),
           (''closed_at'', JNull),
           (''body'', JStr ''It crashes.'')]"

definition example_event :: json where
  "example_event = JObj [(''action'', JStr ''opened''), (''issue'', example_issue)]"

text \<open>An event whose issue has no label and no assignee.\<close>

definition unlabelled_event :: json where
  "unlabelled_event =
     JObj [(''action'', JStr ''opened''),
           (''issue'', JObj [(''id'', JInt 8), (''labels'', JList []), (''assignees'', JList [])])]"

text \<open>The fields the Feishu script builds for the two events, with the default name
  \<^verbatim>\<open>Issue ID\<close> of the column of the issue id.\<close>

definition example_fields :: "(string \<times> json) list" where
  "example_fields =
     [(''Issue ID'', JStr ''7''), (''Issue Number'', JInt 3), (''Title'', JStr ''Crash on start''),
      (''State'', JStr ''open''), (''URL'', JStr ''https://github.com/o/r/issues/3''),
      (''User'', JStr ''bob''), (''Labels'', JStr ''bug, P1''), (''Assignees'', JStr ''alice''),
      (''Action'', JStr ''opened''), (''Created At'', JStr ''2024-01-02T03:04:05+00:00''),
      (''Updated At'', JStr ''2024-01-02T03:04:05+00:00''), (''Closed At'', JNull),
      (''Body'', JStr ''It crashes.'')]"

definition unlabelled_fields :: "(string \<times> json) list" where
  "unlabelled_fields =
     [(''Issue ID'', JStr ''8''), (''Issue Number'', JNull), (''Title'', JNull),
      (''State'', JNull), (''URL'', JNull), (''User'', JNull), (''Labels'', JNull),
      (''Assignees'', JNull), (''Action'', JStr ''opened''), (''Created At'', JNull),
      (''Updated At'', JNull), (''Closed At'', JNull), (''Body'', JNull)]"

definition example_environ :: environ where
  "example_environ =
     [''GITHUB_EVENT_PATH'' \<mapsto> ''event.json'',
      ''FEISHU_APP_ID'' \<mapsto> ''cli_a'', ''FEISHU_APP_SECRET'' \<mapsto> ''secret'',
      ''FEISHU_APP_TOKEN'' \<mapsto> ''app'', ''FEISHU_TABLE_ID'' \<mapsto> ''tbl'',
      ''MYSQL_HOST'' \<mapsto> ''db.local'', ''MYSQL_USER'' \<mapsto> ''sync'',
      ''MYSQL_PASSWORD'' \<mapsto> ''pw'', ''MYSQL_DATABASE'' \<mapsto> ''github'']"

definition utc_machine :: "datetime \<Rightarrow> int" where
  "utc_machine d = 0"

definition example_files :: "json \<Rightarrow> string \<Rightarrow> file_content" where
  "example_files event path = (if path = ''event.json'' then Json_file event else No_file)"

definition example_host :: host where
  "example_host =
     \<lparr>environ = example_environ, files = example_files example_event,
      local_offset = utc_machine\<rparr>"

definition example_table :: bitable where
  "example_table =
     \<lparr>svc_base_url = ''https://open.feishu.cn'', svc_app_token = ''app'',
      svc_table_id = ''tbl'', svc_token = ''t-123'', records = []\<rparr>"

definition example_net :: "bitable net" where
  "example_net = \<lparr>remote = example_table, exchanges = []\<rparr>"

definition example_db :: db where
  "example_db = \<lparr>stored = None, working = None, connected = False, calls = []\<rparr>"

definition no_faults :: faults where
  "no_faults c = False"

text \<open>A remote side that issues a token and refuses every other request with a code
  that is not zero, and one that answers every request with the status 403.\<close>

definition refusal :: json where
  "refusal = JObj [(''code'', JInt 91403), (''msg'', JStr ''Forbidden'')]"

definition rejecting :: "unit server" where
  "rejecting s req =
     (if url req = ''https://open.feishu.cn/open-apis/auth/v3/tenant_access_token/internal''
      then Json_body (JObj [(''code'', JInt 0), (''tenant_access_token'', JStr ''t-123'')])
      else Json_body refusal, s)"

definition forbidding :: "unit server" where
  "forbidding s req = (Http_error 403 ''Forbidden'' ''no access'', s)"

definition start :: "unit net" where
  "start = \<lparr>remote = (), exchanges = []\<rparr>"

definition example_config :: config where
  "example_config =
     \<lparr>event_path = ''event.json'', base_url = ''https://open.feishu.cn'',
      app_id = ''cli_a'', app_secret = ''secret'', app_token = ''app'', table_id = ''tbl'',
      upsert = True, issue_id_field = ''Issue ID''\<rparr>"

text \<open>What the MySQL script prepares from the sample event, and the row it writes.\<close>

definition example_moment :: datetime where
  "example_moment =
     \<lparr>year = 2024, month = 1, day = 2, hour = 3, minute = 4, second = 5, microsecond = 0,
      utcoffset = Some 0\<rparr>"

definition example_prepared :: prepared where
  "example_prepared =
     \<lparr>p_issue = example_issue, p_action = JStr ''opened'',
      p_payload_json = json_dumps example_event,
      p_labels_json = json_dumps (JList [JStr ''bug'', JStr ''P1'']),
      p_assignees_json = json_dumps (JList [JStr ''alice'']),
      p_created_at = Some example_moment, p_updated_at = Some example_moment,
      p_closed_at = None\<rparr>"

definition example_row :: issue_row where
  "example_row =
     \<lparr>c_id = Py (JInt 7), c_number = Py (JInt 3), c_title = Py (JStr ''Crash on start''),
      c_body = Py (JStr ''It crashes.''), c_state = Py (JStr ''open''),
      c_created_at = Moment example_moment, c_updated_at = Moment example_moment,
      c_closed_at = Py JNull, c_url = Py (JStr ''https://github.com/o/r/issues/3''),
      c_user_login = Py (JStr ''bob''),
      c_labels = Py (JStr (json_dumps (JList [JStr ''bug'', JStr ''P1'']))),
      c_assignees = Py (JStr (json_dumps (JList [JStr ''alice'']))),
      c_event_action = Py (JStr ''opened''),
      c_payload = Py (JStr (json_dumps example_event))\<rparr>"

definition example_connection :: db_call where
  "example_connection = Connect ''db.local'' 3306 ''sync'' ''pw'' ''github''"

text \<open>A later event for the same issue, now closed, and the row the MySQL script writes
  for it.\<close>

definition closed_event :: json where
  "closed_event =
     JObj [(''action'', JStr ''closed''),
           (''issue'', JObj [(''id'', JInt 7), (''number'', JInt 3), (''state'', JStr ''closed'')])]"

definition closed_host :: host where
  "closed_host = example_host\<lparr>files := example_files closed_event\<rparr>"

definition closed_row :: issue_row where
  "closed_row =
     \<lparr>c_id = Py (JInt 7), c_number = Py (JInt 3), c_title = Py JNull, c_body = Py JNull,
      c_state = Py (JStr ''closed''), c_created_at = Py JNull, c_updated_at = Py JNull,
      c_closed_at = Py JNull, c_url = Py JNull, c_user_login = Py JNull,
      c_labels = Py (JStr ''[]''), c_assignees = Py (JStr ''[]''),
      c_event_action = Py (JStr ''closed''),
      c_payload = Py (JStr (json_dumps closed_event))\<rparr>"

text \<open>A server that rejects the insert, and only it.\<close>

definition insert_fails :: faults where
  "insert_fails c = (case c of Upsert row \<Rightarrow> True | _ \<Rightarrow> False)"

text \<open>The names each script passes to \<^verbatim>\<open>_env\<close>.\<close>

definition feishu_required :: "string list" where
  "feishu_required =
     [''GITHUB_EVENT_PATH'', ''FEISHU_APP_ID'', ''FEISHU_APP_SECRET'', ''FEISHU_APP_TOKEN'',
      ''FEISHU_TABLE_ID'']"

definition mysql_required :: "string list" where
  "mysql_required =
     [''GITHUB_EVENT_PATH'', ''MYSQL_HOST'', ''MYSQL_USER'', ''MYSQL_PASSWORD'', ''MYSQL_DATABASE'']"

section \<open>Properties\<close>

subsection \<open>Sequencing\<close>

lemma then_do_Inl [simp]: "then_do (Inl e) f = Inl e"
  by (simp add: then_do_def)

lemma then_do_Inr [simp]: "then_do (Inr v) f = f v"
  by (simp add: then_do_def)

lemma then_do_eq_Inr: "then_do r f = Inr y \<longleftrightarrow> (\<exists>v. r = Inr v \<and> f v = Inr y)"
  by (cases r) simp_all

lemma then_do_eq_Inl: "then_do r f = Inl e \<longleftrightarrow> r = Inl e \<or> (\<exists>v. r = Inr v \<and> f v = Inl e)"
  by (cases r) simp_all

subsection \<open>Truncation\<close>

lemma slice_to_nonneg: "0 \<le> k \<Longrightarrow> slice_to xs k = take (nat k) xs"
  by (simp add: slice_to_def)

text \<open>
  C3. A body longer than the limit is cut to exactly the limit: the first \<open>limit - 3\<close>
  characters of the body followed by \<^verbatim>\<open>...\<close>; a body of at most the limit is returned as it
  is, and \<^verbatim>\<open>None\<close> stays \<^verbatim>\<open>None\<close>. The Feishu script calls \<^verbatim>\<open>_truncate\<close> with the limit 5000
  (the definition of \<^const>\<open>feishu_fields\<close>); the statement holds for every limit of at
  least 3.
\<close>

theorem truncate_value_spec:
  "truncate_value JNull limit = Inr JNull
   \<and> (int (length s) \<le> limit \<longrightarrow> truncate_value (JStr s) limit = Inr (JStr s))
   \<and> (3 \<le> limit \<and> limit < int (length s) \<longrightarrow>
        (\<exists>t. truncate_value (JStr s) limit = Inr (JStr t)
           \<and> int (length t) = limit
           \<and> drop (nat limit - 3) t = ''...''
           \<and> take (nat limit - 3) t = take (nat limit - 3) s))"
proof -
  have long: "\<exists>t. truncate_value (JStr s) limit = Inr (JStr t)
           \<and> int (length t) = limit
           \<and> drop (nat limit - 3) t = ''...''
           \<and> take (nat limit - 3) t = take (nat limit - 3) s"
    if lim: "3 \<le> limit" and len: "limit < int (length s)"
  proof -
    let ?k = "nat (limit - 3)"
    let ?t = "take ?k s @ ''...''"
    have k: "?k = nat limit - 3" using lim by simp
    have lk: "length (take ?k s) = ?k" using lim len by simp
    have "truncate_value (JStr s) limit = Inr (JStr ?t)"
      using lim len by (simp add: slice_to_nonneg)
    moreover have "int (length ?t) = limit" using lim len by simp
    moreover have "drop (nat limit - 3) ?t = ''...''" using lk k by simp
    moreover have "take (nat limit - 3) ?t = take (nat limit - 3) s" using lk k by simp
    ultimately show ?thesis by blast
  qed
  show ?thesis using long by simp
qed

theorem truncate_value_spec_witness:
  "int (length ''abc'') \<le> 5000
   \<and> truncate_value (JStr ''abc'') 5000 = Inr (JStr ''abc'')
   \<and> 3 \<le> (5000 :: int) \<and> 5000 < int (length (replicate 5001 CHR ''a''))
   \<and> truncate_value (JStr (replicate 5001 CHR ''a'')) 5000
       = Inr (JStr (replicate 4997 CHR ''a'' @ ''...''))
   \<and> truncate_value (JStr ''abcdefgh'') 5 = Inr (JStr ''ab...'')"
  using truncate_value_spec [of 5000 "''abc''"]
    truncate_value_spec [of 5000 "replicate 5001 CHR ''a''"]
  by (simp add: slice_to_nonneg)

subsection \<open>Configuration\<close>

lemma env_Inr_iff: "env e name None = Inr v \<longleftrightarrow> e name = Some v \<and> v \<noteq> []"
  by (auto simp: env_def getenv_def split: option.splits)

lemma env_Inl_iff:
  "env e name None = Inl err \<longleftrightarrow>
     err = SystemExit (''Missing required env var: '' @ name) \<and> (e name = None \<or> e name = Some [])"
  by (auto simp: env_def getenv_def split: option.splits)

lemma env_unset: "e name = None \<or> e name = Some [] \<Longrightarrow>
    env e name None = Inl (SystemExit (''Missing required env var: '' @ name))"
  by (auto simp: env_def getenv_def)






lemma mysql_prepare_unset:
  "environ h ''GITHUB_EVENT_PATH'' = None \<or> environ h ''GITHUB_EVENT_PATH'' = Some [] \<Longrightarrow>
     mysql_prepare h = Inl (SystemExit (''Missing required env var: '' @ ''GITHUB_EVENT_PATH''))"
  by (simp add: mysql_prepare_def env_unset del: append.simps)




lemma py_int_Inl: "py_int s = Inl err \<Longrightarrow> err = Uncaught ValueError"
  by (simp add: py_int_def Let_def split: if_splits)

lemma missingI:
  "err = SystemExit (''Missing required env var: '' @ v) \<Longrightarrow> v \<in> set names \<Longrightarrow>
   e v = None \<or> e v = Some [] \<Longrightarrow>
   \<exists>v. v \<in> set names \<and> (e v = None \<or> e v = Some [])
        \<and> err = SystemExit (''Missing required env var: '' @ v)"
  by blast

lemma feishu_config_Inr:
  "feishu_config e = Inr c \<Longrightarrow> name \<in> set feishu_required \<Longrightarrow> e name \<noteq> None"
  by (auto simp: feishu_config_def feishu_required_def then_do_eq_Inr env_Inr_iff)

lemma feishu_config_Inl:
  "feishu_config e = Inl err \<Longrightarrow>
     \<exists>v. v \<in> set feishu_required \<and> (e v = None \<or> e v = Some [])
           \<and> err = SystemExit (''Missing required env var: '' @ v)"
  unfolding feishu_config_def feishu_required_def then_do_eq_Inl env_Inl_iff
  by (elim disjE exE conjE; (rule missingI, assumption, simp, simp)?) simp_all

lemma connect_args_Inr:
  "connect_args e = Inr a \<Longrightarrow> name \<in> set mysql_required \<Longrightarrow> name \<noteq> ''GITHUB_EVENT_PATH'' \<Longrightarrow>
     e name \<noteq> None"
  by (auto simp: connect_args_def mysql_required_def then_do_eq_Inr env_Inr_iff)

lemma connect_args_Inl:
  "connect_args e = Inl err \<Longrightarrow>
     (\<exists>v. v \<in> set mysql_required \<and> (e v = None \<or> e v = Some [])
           \<and> err = SystemExit (''Missing required env var: '' @ v))
     \<or> (err = Uncaught ValueError \<and> py_int (getenv_or e ''MYSQL_PORT'' ''3306'') = Inl err)"
  unfolding connect_args_def mysql_required_def then_do_eq_Inl env_Inl_iff
  by (elim disjE exE conjE; (rule disjI1, rule missingI, assumption, simp, simp)?)
     (simp_all add: py_int_Inl)

lemma exit_status_Inl: "exit_status (Inl err) = 1"
  by (cases err) simp_all

lemmas sample_defs =
  example_host_def example_environ_def example_files_def example_event_def example_issue_def
  example_table_def example_net_def example_db_def no_faults_def utc_machine_def

text \<open>
  C7. When a variable that a script reads through \<^verbatim>\<open>_env\<close> is absent, the run ends with an
  error, hence a non-zero status, and nothing has been sent or opened: the exchanges,
  respectively the calls to the database, are those before the run. The Feishu script
  reads its configuration first, so its message names an absent (or empty) variable. The
  MySQL script reads \<^verbatim>\<open>GITHUB_EVENT_PATH\<close> first and the others in \<^verbatim>\<open>_connect_mysql\<close>: its
  message names an absent variable unless an earlier step has failed with a message of
  its own (the event file, the issue, a timestamp, or the port number).
\<close>

theorem missing_variable_stops_run:
  "(name \<in> set feishu_required \<and> environ h name = None \<longrightarrow>
      (\<exists>v. v \<in> set feishu_required \<and> (environ h v = None \<or> environ h v = Some [])
         \<and> main_feishu h srv w = (Inl (SystemExit (''Missing required env var: '' @ v)), w)))
   \<and> (name \<in> set mysql_required \<and> environ h name = None \<longrightarrow>
      (\<exists>err. main_mysql h faults now d = (Inl err, d)
         \<and> exit_status (Inl err :: error + unit) \<noteq> 0
         \<and> ((\<exists>v. v \<in> set mysql_required \<and> (environ h v = None \<or> environ h v = Some [])
                \<and> err = SystemExit (''Missing required env var: '' @ v))
             \<or> mysql_prepare h = Inl err
             \<or> (err = Uncaught ValueError
                 \<and> py_int (getenv_or (environ h) ''MYSQL_PORT'' ''3306'') = Inl err))))"
proof (intro conjI impI)
  assume a: "name \<in> set feishu_required \<and> environ h name = None"
  show "\<exists>v. v \<in> set feishu_required \<and> (environ h v = None \<or> environ h v = Some [])
         \<and> main_feishu h srv w = (Inl (SystemExit (''Missing required env var: '' @ v)), w)"
  proof (cases "feishu_config (environ h)")
    case (Inl err)
    from feishu_config_Inl [OF this] obtain v where
      v: "v \<in> set feishu_required" "environ h v = None \<or> environ h v = Some []"
        "err = SystemExit (''Missing required env var: '' @ v)"
      by blast
    have "main_feishu h srv w = (Inl err, w)"
      using Inl by (simp add: main_feishu_def feishu_plan_def)
    with v show ?thesis by blast
  next
    case (Inr c)
    with a show ?thesis using feishu_config_Inr by blast
  qed
next
  assume a: "name \<in> set mysql_required \<and> environ h name = None"
  have "\<exists>err. main_mysql h faults now d = (Inl err, d)
         \<and> ((\<exists>v. v \<in> set mysql_required \<and> (environ h v = None \<or> environ h v = Some [])
                \<and> err = SystemExit (''Missing required env var: '' @ v))
             \<or> mysql_prepare h = Inl err
             \<or> (err = Uncaught ValueError
                 \<and> py_int (getenv_or (environ h) ''MYSQL_PORT'' ''3306'') = Inl err))"
  proof (cases "mysql_prepare h")
    case (Inl err)
    then have "main_mysql h faults now d = (Inl err, d)"
      by (simp add: main_mysql_def)
    with Inl show ?thesis by blast
  next
    case (Inr p)
    have ne: "name \<noteq> ''GITHUB_EVENT_PATH''"
    proof
      assume "name = ''GITHUB_EVENT_PATH''"
      with a have "mysql_prepare h = Inl (SystemExit (''Missing required env var: '' @ ''GITHUB_EVENT_PATH''))"
        by (intro mysql_prepare_unset) simp
      with Inr show False by simp
    qed
    show ?thesis
    proof (cases "connect_args (environ h)")
      case (Inl err)
      have "main_mysql h faults now d = (Inl err, d)"
        using Inr Inl by (simp add: main_mysql_def connect_mysql_def)
      with connect_args_Inl [OF Inl] show ?thesis by blast
    next
      case (Inr args)
      with a ne show ?thesis using connect_args_Inr by blast
    qed
  qed
  then show "\<exists>err. main_mysql h faults now d = (Inl err, d)
         \<and> exit_status (Inl err :: error + unit) \<noteq> 0
         \<and> ((\<exists>v. v \<in> set mysql_required \<and> (environ h v = None \<or> environ h v = Some [])
                \<and> err = SystemExit (''Missing required env var: '' @ v))
             \<or> mysql_prepare h = Inl err
             \<or> (err = Uncaught ValueError
                 \<and> py_int (getenv_or (environ h) ''MYSQL_PORT'' ''3306'') = Inl err))"
    by (simp add: exit_status_Inl)
qed

lemma issue_of_missing:
  "''issue'' \<notin> fst ` set kvs \<Longrightarrow> issue_of (JObj kvs) = Inl missing_issue"
  by (simp add: issue_of_def)

lemma exit_status_missing_issue: "exit_status (Inl missing_issue :: error + unit) = 1"
  by (simp add: missing_issue_def)

text \<open>
  C6. When the event that was parsed is a mapping without the key \<^verbatim>\<open>issue\<close>, either script
  ends with \<^verbatim>\<open>SystemExit("Event payload missing 'issue'")\<close>, status 1, and nothing has been
  sent or opened: the Feishu script has made no exchange (none for a token either), the
  MySQL script no call to the database (no connection). The event is parsed once the
  configuration of the Feishu script, respectively \<^verbatim>\<open>GITHUB_EVENT_PATH\<close>, has been read.
\<close>

theorem missing_issue_no_side_effect:
  "(feishu_config (environ h) = Inr c \<and> files h (event_path c) = Json_file (JObj kvs)
      \<and> ''issue'' \<notin> fst ` set kvs
      \<longrightarrow> main_feishu h srv w = (Inl missing_issue, w))
   \<and> (env (environ h) ''GITHUB_EVENT_PATH'' None = Inr path
      \<and> files h path = Json_file (JObj kvs) \<and> ''issue'' \<notin> fst ` set kvs
      \<longrightarrow> main_mysql h faults now d = (Inl missing_issue, d))
   \<and> exit_status (Inl missing_issue :: error + unit) \<noteq> 0"
  by (simp add: main_feishu_def feishu_plan_def feishu_fields_def load_event_def
      main_mysql_def mysql_prepare_def issue_of_missing exit_status_missing_issue)

subsection \<open>Timestamps\<close>

declare digits.simps [simp del]

lemma digit_char_props:
  assumes "k < 10"
  shows "is_digit (digit_char k)" "int (of_char (digit_char k)) - 48 = int k"
    "digit_char k \<noteq> CHR ''Z''" "\<not> is_sign (digit_char k)"
proof -
  from assms have "k = 0 \<or> k = 1 \<or> k = 2 \<or> k = 3 \<or> k = 4 \<or> k = 5 \<or> k = 6 \<or> k = 7 \<or> k = 8 \<or> k = 9"
    by arith
  then show "is_digit (digit_char k)" "int (of_char (digit_char k)) - 48 = int k"
    "digit_char k \<noteq> CHR ''Z''" "\<not> is_sign (digit_char k)"
    by (auto simp: digit_char_def is_digit_def is_sign_def)
qed

lemma decimal_snoc: "decimal (xs @ [c]) = 10 * decimal xs + (int (of_char c) - 48)"
  by (simp add: decimal_def)

lemma digits_all: "list_all is_digit (digits n)"
proof (induction n rule: digits.induct)
  case (1 n)
  then show ?case by (subst digits.simps) (simp add: digit_char_props)
qed

lemma decimal_digits: "decimal (digits n) = int n"
proof (induction n rule: digits.induct)
  case (1 n)
  show ?case
  proof (cases "n < 10")
    case True
    then show ?thesis by (subst digits.simps) (simp add: decimal_def digit_char_props)
  next
    case False
    with 1 have "decimal (digits (n div 10)) = int (n div 10)" by simp
    moreover have "10 * int (n div 10) + int (n mod 10) = int n" by presburger
    ultimately show ?thesis using False
      by (subst digits.simps) (simp add: decimal_snoc digit_char_props)
  qed
qed

lemma length_digits: "0 < w \<Longrightarrow> n < 10 ^ w \<Longrightarrow> length (digits n) \<le> w"
proof (induction w arbitrary: n)
  case 0
  then show ?case by simp
next
  case (Suc w)
  show ?case
  proof (cases "n < 10")
    case True
    then show ?thesis by (subst digits.simps) simp
  next
    case False
    then have w: "0 < w" using Suc.prems by (cases w) auto
    have "n < 10 * 10 ^ w" using Suc.prems by simp
    then have "n div 10 < 10 ^ w" by (simp add: less_mult_imp_div_less mult.commute)
    with Suc.IH w have "length (digits (n div 10)) \<le> w" by blast
    with False show ?thesis by (subst digits.simps) simp
  qed
qed

lemma decimal_zeros: "decimal (replicate k CHR ''0'' @ ds) = decimal ds"
proof -
  have "foldl (\<lambda>a c. 10 * a + (int (of_char c) - 48)) 0 (replicate k CHR ''0'') = 0"
    by (induction k) simp_all
  then show ?thesis by (simp add: decimal_def)
qed

lemma pad_props:
  assumes "0 < w" "0 \<le> n" "n < 10 ^ w"
  shows "length (pad w n) = w" "list_all is_digit (pad w n)" "decimal (pad w n) = n"
    "CHR ''Z'' \<notin> set (pad w n)" "list_all (\<lambda>c. \<not> is_sign c) (pad w n)"
proof -
  have "nat n < 10 ^ w" using assms by (simp add: nat_less_iff)
  with assms(1) have l: "length (digits (nat n)) \<le> w" by (rule length_digits)
  show "length (pad w n) = w" using l by (simp add: pad_def Let_def)
  have z: "is_digit CHR ''0''" by (simp add: is_digit_def)
  show d: "list_all is_digit (pad w n)"
    using digits_all [of "nat n"] z by (auto simp: pad_def Let_def list_all_iff)
  show "decimal (pad w n) = n" using assms by (simp add: pad_def Let_def decimal_zeros decimal_digits)
  have nz: "\<And>c. is_digit c \<Longrightarrow> c \<noteq> CHR ''Z'' \<and> \<not> is_sign c"
    by (auto simp: is_digit_def is_sign_def)
  show "CHR ''Z'' \<notin> set (pad w n)" using d nz by (auto simp: list_all_iff)
  show "list_all (\<lambda>c. \<not> is_sign c) (pad w n)" using d nz by (auto simp: list_all_iff)
qed


lemma parse_digits_ok: "s \<noteq> [] \<Longrightarrow> list_all is_digit s \<Longrightarrow> parse_digits s = Some (decimal s)"
  by (simp add: parse_digits_def)

lemma parse_date_parts:
  assumes "length a = 4" "length b = 2" "length c = 2"
    "list_all is_digit a" "list_all is_digit b" "list_all is_digit c"
  shows "parse_isoformat_date (a @ ''-'' @ b @ ''-'' @ c) = Some (decimal a, decimal b, decimal c)"
proof -
  have ne: "a \<noteq> []" "b \<noteq> []" "c \<noteq> []" using assms by auto
  show ?thesis
    using assms ne by (simp add: parse_isoformat_date_def nth_append parse_digits_ok)
qed

lemma parse_time_parts:
  assumes "length a = 2" "length b = 2" "length c = 2"
    "list_all is_digit a" "list_all is_digit b" "list_all is_digit c"
  shows "parse_hh_mm_ss_ff (a @ '':'' @ b @ '':'' @ c) = Some (decimal a, decimal b, decimal c, 0)"
proof -
  have ne: "a \<noteq> []" "b \<noteq> []" "c \<noteq> []" using assms by auto
  show ?thesis
    using assms ne by (simp add: parse_hh_mm_ss_ff_def Let_def nth_append parse_digits_ok)
qed

lemma utc_offset_text: "parse_hh_mm_ss_ff ''00:00'' = Some (0, 0, 0, 0)"
  by (simp add: parse_hh_mm_ss_ff_def Let_def parse_digits_def decimal_def is_digit_def)

lemma parse_time_utc:
  assumes "length a = 2" "length b = 2" "length c = 2"
    "list_all is_digit a" "list_all is_digit b" "list_all is_digit c"
  shows "parse_isoformat_time (a @ '':'' @ b @ '':'' @ c @ ''+00:00'')
           = Some ((decimal a, decimal b, decimal c, 0), Some 0)"
proof -
  let ?t = "a @ '':'' @ b @ '':'' @ c"
  have ns: "\<And>x. is_digit x \<Longrightarrow> \<not> is_sign x" by (auto simp: is_digit_def is_sign_def)
  have all: "\<forall>x\<in>set ?t. \<not> is_sign x"
    using assms ns by (auto simp: list_all_iff is_sign_def)
  have s: "is_sign CHR ''+''" by (simp add: is_sign_def)
  have eq: "a @ '':'' @ b @ '':'' @ c @ ''+00:00'' = ?t @ CHR ''+'' # ''00:00''" by simp
  have tw: "takeWhile (\<lambda>c. \<not> is_sign c) (?t @ CHR ''+'' # ''00:00'') = ?t"
    using all s by (intro takeWhile_tail[THEN trans]) (auto simp del: append_assoc)
  have dw: "dropWhile (\<lambda>c. \<not> is_sign c) (?t @ CHR ''+'' # ''00:00'') = CHR ''+'' # ''00:00''"
    using all s by (subst dropWhile_append2) auto
  show ?thesis
    unfolding eq parse_isoformat_time_def tw dw Let_def
    using parse_time_parts [OF assms] by (simp add: utc_offset_text)
qed

lemma digits_small: "n < 10 \<Longrightarrow> digits n = [digit_char n]"
  by (subst digits.simps) simp

lemma digits_step: "10 \<le> n \<Longrightarrow> digits n = digits (n div 10) @ [digit_char (n mod 10)]"
  by (subst digits.simps) simp

lemma digit_char_numerals:
  "digit_char 0 = CHR ''0''" "digit_char 1 = CHR ''1''" "digit_char 2 = CHR ''2''"
  "digit_char 3 = CHR ''3''" "digit_char 4 = CHR ''4''" "digit_char 5 = CHR ''5''"
  "digit_char 6 = CHR ''6''" "digit_char 7 = CHR ''7''" "digit_char 8 = CHR ''8''"
  "digit_char 9 = CHR ''9''" "digit_char (Suc 0) = CHR ''1''"
  by (simp_all add: digit_char_def)

lemmas digits_eval = digits_small digits_step digit_char_numerals

lemma format_offset_utc: "format_offset 0 = ''+00:00''"
  by (simp add: format_offset_def pad_def Let_def digits_eval)

lemma replace_Z_append: "replace_Z (xs @ ys) = replace_Z xs @ replace_Z ys"
  by (simp add: replace_Z_def)

lemma replace_Z_none: "CHR ''Z'' \<notin> set xs \<Longrightarrow> replace_Z xs = xs"
  by (induction xs) (auto simp: replace_Z_def)

lemma days_in_month_le: "1 \<le> m \<Longrightarrow> m \<le> 12 \<Longrightarrow> days_in_month y m \<le> 31"
proof -
  assume "1 \<le> m" "m \<le> 12"
  then have "m = 1 \<or> m = 2 \<or> m = 3 \<or> m = 4 \<or> m = 5 \<or> m = 6 \<or> m = 7 \<or> m = 8 \<or> m = 9
      \<or> m = 10 \<or> m = 11 \<or> m = 12" by arith
  then show ?thesis by (auto simp: days_in_month_def)
qed

lemma fromisoformat_github:
  assumes d: "valid_date y m d" and t: "valid_time h mi s 0"
  shows "fromisoformat (replace_Z (github_timestamp y m d h mi s))
           = Some \<lparr>year = y, month = m, day = d, hour = h, minute = mi, second = s,
                    microsecond = 0, utcoffset = Some 0\<rparr>"
proof -
  have dm: "d \<le> 31" using d days_in_month_le [of m y] by (simp add: valid_date_def)
  have Y: "(0::nat) < 4" "0 \<le> y" "y < 10 ^ 4" using d by (simp_all add: valid_date_def)
  have M: "(0::nat) < 2" "0 \<le> m" "m < 10 ^ 2" using d by (simp_all add: valid_date_def)
  have D: "(0::nat) < 2" "0 \<le> d" "d < 10 ^ 2" using d dm by (simp_all add: valid_date_def)
  have H: "(0::nat) < 2" "0 \<le> h" "h < 10 ^ 2" using t by (simp_all add: valid_time_def)
  have MI: "(0::nat) < 2" "0 \<le> mi" "mi < 10 ^ 2" using t by (simp_all add: valid_time_def)
  have S: "(0::nat) < 2" "0 \<le> s" "s < 10 ^ 2" using t by (simp_all add: valid_time_def)
  note py = pad_props [OF Y] and pm = pad_props [OF M] and pd = pad_props [OF D]
    and ph = pad_props [OF H] and pmi = pad_props [OF MI] and ps = pad_props [OF S]
  define date where "date = pad 4 y @ ''-'' @ pad 2 m @ ''-'' @ pad 2 d"
  define time where "time = pad 2 h @ '':'' @ pad 2 mi @ '':'' @ pad 2 s @ ''+00:00''"
  have lits: "replace_Z ''-'' = ''-''" "replace_Z ''T'' = ''T''" "replace_Z '':'' = '':''"
    "replace_Z ''Z'' = ''+00:00''"
    by (simp_all add: replace_Z_def)
  have r: "replace_Z (github_timestamp y m d h mi s) = date @ CHR ''T'' # time"
    unfolding github_timestamp_def replace_Z_append lits date_def time_def
      replace_Z_none [OF py(4)] replace_Z_none [OF pm(4)] replace_Z_none [OF pd(4)]
      replace_Z_none [OF ph(4)] replace_Z_none [OF pmi(4)] replace_Z_none [OF ps(4)]
    by simp
  have ld: "length date = 10" using py(1) pm(1) pd(1) by (simp add: date_def)
  have pdate: "parse_isoformat_date date = Some (y, m, d)"
    using parse_date_parts [OF py(1) pm(1) pd(1) py(2) pm(2) pd(2)] py(3) pm(3) pd(3)
    by (simp add: date_def)
  have ptime: "parse_isoformat_time time = Some ((h, mi, s, 0), Some 0)"
    using parse_time_utc [OF ph(1) pmi(1) ps(1) ph(2) pmi(2) ps(2)] ph(3) pmi(3) ps(3)
    by (simp add: time_def)
  have tk: "take 10 (date @ CHR ''T'' # time) = date" using ld by simp
  have dr: "drop 11 (date @ CHR ''T'' # time) = time" using ld by simp
  have ln: "length (date @ CHR ''T'' # time) \<noteq> 10" using ld by simp
  show ?thesis
    unfolding r fromisoformat_def tk dr using ln pdate ptime d t by simp
qed



lemma github_timestamp_example: "github_timestamp 2024 1 2 3 4 5 = ''2024-01-02T03:04:05Z''"
  by (simp add: github_timestamp_def pad_def Let_def digits_eval)


subsection \<open>The sample run, evaluated\<close>

lemma example_timestamp_mysql:
  "parse_github_timestamp_mysql lo (JStr ''2024-01-02T03:04:05Z'')
     = Inr (Some \<lparr>year = 2024, month = 1, day = 2, hour = 3, minute = 4, second = 5,
                   microsecond = 0, utcoffset = Some 0\<rparr>)"
proof -
  have "valid_date 2024 1 2" "valid_time 3 4 5 0"
    by (simp_all add: valid_date_def valid_time_def days_in_month_def)
  from fromisoformat_github [OF this] show ?thesis
    unfolding github_timestamp_example
    by (simp add: parse_github_timestamp_mysql_def astimezone_utc_def)
qed

lemma example_timestamp:
  "parse_github_timestamp lo (JStr ''2024-01-02T03:04:05Z'') = Inr (JStr ''2024-01-02T03:04:05+00:00'')"
proof -
  have "valid_date 2024 1 2" "valid_time 3 4 5 0"
    by (simp_all add: valid_date_def valid_time_def days_in_month_def)
  from fromisoformat_github [OF this] show ?thesis
    unfolding github_timestamp_example
    by (simp add: parse_github_timestamp_def astimezone_utc_def isoformat_def format_offset_utc
        pad_def Let_def digits_eval)
qed

lemma null_timestamp:
  "parse_github_timestamp_mysql lo JNull = Inr None"
  "parse_github_timestamp lo JNull = Inr JNull"
  by (simp_all add: parse_github_timestamp_mysql_def parse_github_timestamp_def)

lemma example_issue_of: "issue_of example_event = Inr example_issue"
  by (simp add: issue_of_def example_event_def)

lemma example_action: "dict_get example_event ''action'' dflt = Inr (JStr ''opened'')"
  by (simp add: example_event_def)

lemma example_names:
  "names_of example_issue ''labels'' ''name'' = Inr [JStr ''bug'', JStr ''P1'']"
  "names_of example_issue ''assignees'' ''login'' = Inr [JStr ''alice'']"
  by (simp_all add: names_of_def example_issue_def)

lemma example_gets:
  "dict_get example_issue ''created_at'' JNull = Inr (JStr ''2024-01-02T03:04:05Z'')"
  "dict_get example_issue ''updated_at'' JNull = Inr (JStr ''2024-01-02T03:04:05Z'')"
  "dict_get example_issue ''closed_at'' JNull = Inr JNull"
  "dict_get example_issue ''id'' JNull = Inr (JInt 7)"
  "dict_get example_issue ''number'' JNull = Inr (JInt 3)"
  "dict_get example_issue ''title'' JNull = Inr (JStr ''Crash on start'')"
  "dict_get example_issue ''state'' JNull = Inr (JStr ''open'')"
  "dict_get example_issue ''html_url'' JNull = Inr (JStr ''https://github.com/o/r/issues/3'')"
  "dict_get example_issue ''user'' (JObj []) = Inr (JObj [(''login'', JStr ''bob'')])"
  "dict_get example_issue ''body'' JNull = Inr (JStr ''It crashes.'')"
  by (simp_all add: example_issue_def)

lemma mysql_prepare_example:
  assumes "e ''GITHUB_EVENT_PATH'' = Some ''event.json''"
  shows "mysql_prepare (example_host\<lparr>environ := e\<rparr>)
     = Inr \<lparr>p_issue = example_issue, p_action = JStr ''opened'',
            p_payload_json = json_dumps example_event,
            p_labels_json = json_dumps (JList [JStr ''bug'', JStr ''P1'']),
            p_assignees_json = json_dumps (JList [JStr ''alice'']),
            p_created_at = Some \<lparr>year = 2024, month = 1, day = 2, hour = 3, minute = 4,
                                  second = 5, microsecond = 0, utcoffset = Some 0\<rparr>,
            p_updated_at = Some \<lparr>year = 2024, month = 1, day = 2, hour = 3, minute = 4,
                                  second = 5, microsecond = 0, utcoffset = Some 0\<rparr>,
            p_closed_at = None\<rparr>"
  unfolding mysql_prepare_def
  using assms
  by (simp add: env_def getenv_def example_host_def example_files_def load_event_def
      example_issue_of example_action example_names example_gets example_timestamp_mysql
      null_timestamp del: json_dumps.simps)

theorem missing_variable_stops_run_witness:
  "''FEISHU_TABLE_ID'' \<in> set feishu_required
   \<and> environ (example_host\<lparr>environ := example_environ(''FEISHU_TABLE_ID'' := None)\<rparr>)
        ''FEISHU_TABLE_ID'' = None
   \<and> main_feishu (example_host\<lparr>environ := example_environ(''FEISHU_TABLE_ID'' := None)\<rparr>)
        bitable_service example_net
      = (Inl (SystemExit ''Missing required env var: FEISHU_TABLE_ID''), example_net)
   \<and> ''MYSQL_PASSWORD'' \<in> set mysql_required
   \<and> environ (example_host\<lparr>environ := example_environ(''MYSQL_PASSWORD'' := None)\<rparr>)
        ''MYSQL_PASSWORD'' = None
   \<and> main_mysql (example_host\<lparr>environ := example_environ(''MYSQL_PASSWORD'' := None)\<rparr>)
        no_faults 0 example_db
      = (Inl (SystemExit ''Missing required env var: MYSQL_PASSWORD''), example_db)"
proof -
  let ?hf = "example_host\<lparr>environ := example_environ(''FEISHU_TABLE_ID'' := None)\<rparr>"
  let ?hm = "example_host\<lparr>environ := example_environ(''MYSQL_PASSWORD'' := None)\<rparr>"
  have f: "''FEISHU_TABLE_ID'' \<in> set feishu_required" "environ ?hf ''FEISHU_TABLE_ID'' = None"
    by (simp_all add: feishu_required_def)
  have m: "''MYSQL_PASSWORD'' \<in> set mysql_required" "environ ?hm ''MYSQL_PASSWORD'' = None"
    by (simp_all add: mysql_required_def)
  from missing_variable_stops_run [of "''FEISHU_TABLE_ID''" ?hf bitable_service example_net
      no_faults 0 example_db] f
  obtain v where v: "v \<in> set feishu_required" "environ ?hf v = None \<or> environ ?hf v = Some []"
    and rf: "main_feishu ?hf bitable_service example_net
               = (Inl (SystemExit (''Missing required env var: '' @ v)), example_net)"
    by blast
  from v have "v = ''FEISHU_TABLE_ID''"
    by (auto simp: feishu_required_def example_environ_def split: if_splits)
  with rf have 1: "main_feishu ?hf bitable_service example_net
               = (Inl (SystemExit ''Missing required env var: FEISHU_TABLE_ID''), example_net)"
    by simp
  have cm: "connect_args (example_environ(''MYSQL_PASSWORD'' := None))
              = Inl (SystemExit ''Missing required env var: MYSQL_PASSWORD'')"
    by (simp add: connect_args_def env_def getenv_def getenv_or_def example_environ_def
        py_int_def strip_def is_space_def is_sign_def is_digit_def decimal_def Let_def)
  have pm: "\<exists>p. mysql_prepare ?hm = Inr p"
    by (subst mysql_prepare_example) (simp_all add: example_environ_def)
  from missing_variable_stops_run [of "''MYSQL_PASSWORD''" ?hm bitable_service example_net
      no_faults 0 example_db] m
  obtain err where rm: "main_mysql ?hm no_faults 0 example_db = (Inl err, example_db)"
    by blast
  from pm obtain p where p: "mysql_prepare ?hm = Inr p" by blast
  have "fst (main_mysql ?hm no_faults 0 example_db)
          = Inl (SystemExit ''Missing required env var: MYSQL_PASSWORD'')"
    by (simp add: main_mysql_def connect_mysql_def cm p)
  with rm have 2: "main_mysql ?hm no_faults 0 example_db
          = (Inl (SystemExit ''Missing required env var: MYSQL_PASSWORD''), example_db)"
    by simp
  from f m 1 2 show ?thesis by blast
qed

theorem missing_issue_no_side_effect_witness:
  "feishu_config (environ (example_host\<lparr>files := example_files (JObj [(''action'', JStr ''opened'')])\<rparr>))
      = Inr \<lparr>event_path = ''event.json'', base_url = ''https://open.feishu.cn'',
             app_id = ''cli_a'', app_secret = ''secret'', app_token = ''app'', table_id = ''tbl'',
             upsert = True, issue_id_field = ''Issue ID''\<rparr>
   \<and> files (example_host\<lparr>files := example_files (JObj [(''action'', JStr ''opened'')])\<rparr>) ''event.json''
      = Json_file (JObj [(''action'', JStr ''opened'')])
   \<and> ''issue'' \<notin> fst ` set [(''action'', JStr ''opened'')]
   \<and> main_feishu (example_host\<lparr>files := example_files (JObj [(''action'', JStr ''opened'')])\<rparr>)
        bitable_service example_net
      = (Inl (SystemExit (''Event payload missing '' @ [CHR 0x27] @ ''issue'' @ [CHR 0x27])), example_net)
   \<and> env (environ (example_host\<lparr>files := example_files (JObj [(''action'', JStr ''opened'')])\<rparr>))
        ''GITHUB_EVENT_PATH'' None = Inr ''event.json''
   \<and> main_mysql (example_host\<lparr>files := example_files (JObj [(''action'', JStr ''opened'')])\<rparr>)
        no_faults 0 example_db
      = (Inl (SystemExit (''Event payload missing '' @ [CHR 0x27] @ ''issue'' @ [CHR 0x27])), example_db)"
proof -
  let ?h = "example_host\<lparr>files := example_files (JObj [(''action'', JStr ''opened'')])\<rparr>"
  let ?c = "\<lparr>event_path = ''event.json'', base_url = ''https://open.feishu.cn'',
             app_id = ''cli_a'', app_secret = ''secret'', app_token = ''app'', table_id = ''tbl'',
             upsert = True, issue_id_field = ''Issue ID''\<rparr>"
  have c: "feishu_config (environ ?h) = Inr ?c"
    by (simp add: feishu_config_def env_def getenv_def getenv_or_def example_host_def
        example_environ_def)
  have p: "env (environ ?h) ''GITHUB_EVENT_PATH'' None = Inr ''event.json''"
    by (simp add: env_def getenv_def example_host_def example_environ_def)
  have fl: "files ?h (event_path ?c) = Json_file (JObj [(''action'', JStr ''opened'')])"
    by (simp add: example_files_def)
  have k: "''issue'' \<notin> fst ` set [(''action'', JStr ''opened'')]" by simp
  from missing_issue_no_side_effect [of ?h ?c "[(''action'', JStr ''opened'')]" bitable_service
      example_net "''event.json''" no_faults 0 example_db] c p fl k
  show ?thesis by (simp add: missing_issue_def)
qed

subsection \<open>The record of an issue\<close>

lemma map_of_foldl_update:
  "map_of (foldl (\<lambda>d kv. AList.update (fst kv) (snd kv) d) d kvs) = map_of d ++ map_of (rev kvs)"
proof (induction kvs arbitrary: d)
  case Nil
  then show ?case by simp
next
  case (Cons kv kvs)
  show ?case
    by (simp add: Cons.IH update_conv' fun_eq_iff map_add_def split: option.splits)
qed

lemma map_of_dict_of: "map_of (dict_of kvs) = map_of (rev kvs)"
  by (simp add: dict_of_def map_of_foldl_update)

lemma map_of_merge_fields: "map_of (merge_fields old new) = map_of old ++ map_of (rev new)"
  by (simp add: merge_fields_def map_of_foldl_update)

lemma collect_truthy: "collect key xs = Inr vs \<Longrightarrow> list_all truthy vs"
proof (induction xs arbitrary: vs)
  case Nil
  then show ?case by simp
next
  case (Cons x xs)
  then show ?case
    by (auto simp: then_do_eq_Inr split: if_splits)
qed

lemma strings_of_Inr: "strings_of vs = Inr ss \<Longrightarrow> vs = map JStr ss"
proof (induction vs arbitrary: ss rule: strings_of.induct)
  case 1
  then show ?case by simp
next
  case (2 s vs)
  then show ?case by (auto simp: then_do_eq_Inr)
qed simp_all

lemma strings_of_map: "strings_of (map JStr ss) = Inr ss"
  by (induction ss) simp_all

lemma join_nonempty: "ss \<noteq> [] \<Longrightarrow> list_all (\<lambda>s. s \<noteq> []) ss \<Longrightarrow> join sep ss \<noteq> []"
  by (induction sep ss rule: join.induct) simp_all

lemma joined_or_none_Inr:
  assumes "joined_or_none vs = Inr t" "list_all truthy vs"
  shows "\<exists>ss. vs = map JStr ss \<and> t = (if ss = [] then JNull else JStr (join '', '' ss))
            \<and> t \<noteq> JStr []"
proof (cases "vs = []")
  case True
  with assms show ?thesis by (simp add: joined_or_none_def)
next
  case False
  with assms obtain ss where ss: "strings_of vs = Inr ss" "t = JStr (join '', '' ss)"
    by (auto simp: joined_or_none_def py_join_def then_do_eq_Inr)
  then have vs: "vs = map JStr ss" by (simp add: strings_of_Inr)
  with False have ne: "ss \<noteq> []" by auto
  from assms(2) vs have "list_all (\<lambda>s. s \<noteq> []) ss" by (simp add: list_all_iff)
  with ne have "join '', '' ss \<noteq> []" by (rule join_nonempty)
  with ss vs ne show ?thesis by auto
qed

lemma names_of_truthy: "names_of issue list_key key = Inr vs \<Longrightarrow> list_all truthy vs"
  by (auto simp: names_of_def then_do_eq_Inr collect_truthy)

lemma feishu_fields_Inr:
  assumes "feishu_fields lo f event = Inr (i, flds)"
  shows "\<exists>issue action labels assignees number title state html_url user login labels_text
           assignees_text created created_at updated updated_at closed closed_at body body_text.
      issue_of event = Inr issue
      \<and> dict_get event ''action'' (JStr ''unknown'') = Inr action
      \<and> names_of issue ''labels'' ''name'' = Inr labels
      \<and> names_of issue ''assignees'' ''login'' = Inr assignees
      \<and> dict_get issue ''id'' JNull = Inr i
      \<and> dict_get issue ''number'' JNull = Inr number
      \<and> dict_get issue ''title'' JNull = Inr title
      \<and> dict_get issue ''state'' JNull = Inr state
      \<and> dict_get issue ''html_url'' JNull = Inr html_url
      \<and> dict_get issue ''user'' (JObj []) = Inr user
      \<and> dict_get user ''login'' JNull = Inr login
      \<and> joined_or_none labels = Inr labels_text
      \<and> joined_or_none assignees = Inr assignees_text
      \<and> dict_get issue ''created_at'' JNull = Inr created
      \<and> parse_github_timestamp lo created = Inr created_at
      \<and> dict_get issue ''updated_at'' JNull = Inr updated
      \<and> parse_github_timestamp lo updated = Inr updated_at
      \<and> dict_get issue ''closed_at'' JNull = Inr closed
      \<and> parse_github_timestamp lo closed = Inr closed_at
      \<and> dict_get issue ''body'' JNull = Inr body
      \<and> truncate_value body 5000 = Inr body_text
      \<and> flds = dict_of [(f, JStr (py_str i)),
                   (''Issue Number'', number),
                   (''Title'', title),
                   (''State'', state),
                   (''URL'', html_url),
                   (''User'', login),
                   (''Labels'', labels_text),
                   (''Assignees'', assignees_text),
                   (''Action'', action),
                   (''Created At'', created_at),
                   (''Updated At'', updated_at),
                   (''Closed At'', closed_at),
                   (''Body'', body_text)]"
  using assms unfolding feishu_fields_def then_do_eq_Inr
  apply (elim exE conjE)
  apply (drule Inr_inject)
  apply (elim Pair_inject)
  apply hypsubst
  apply (intro exI conjI; (assumption | rule refl))
  done

lemma collect_names:
  assumes "list_all2 (\<lambda>item n. \<exists>kvs. item = JObj kvs \<and> map_of kvs key = Some (JStr n)) items ns"
  shows "collect key items = Inr (map JStr (filter (\<lambda>n. n \<noteq> []) ns))"
  using assms by (induction items ns rule: list_all2_induct) auto

lemma json_dumps_empty_list: "json_dumps (JList []) = ''[]''"
  by simp

lemma mysql_prepare_lists:
  assumes "mysql_prepare h = Inr p"
  shows "\<exists>ls as. names_of (p_issue p) ''labels'' ''name'' = Inr ls
           \<and> names_of (p_issue p) ''assignees'' ''login'' = Inr as
           \<and> p_labels_json p = json_dumps (JList ls)
           \<and> p_assignees_json p = json_dumps (JList as)"
  using assms unfolding mysql_prepare_def then_do_eq_Inr
  by (elim exE conjE) (drule Inr_inject, hypsubst, simp del: json_dumps.simps)

lemma mysql_params_lists:
  assumes "mysql_params p = Inr row"
  shows "c_labels row = Py (JStr (p_labels_json p)) \<and> c_assignees row = Py (JStr (p_assignees_json p))"
  using assms unfolding mysql_params_def then_do_eq_Inr
  by (elim exE conjE) (drule Inr_inject, hypsubst, simp)

lemma feishu_fields_lists:
  assumes "feishu_fields lo f event = Inr (i, flds)"
  shows "\<exists>issue ls as. issue_of event = Inr issue
         \<and> names_of issue ''labels'' ''name'' = Inr (map JStr ls)
         \<and> names_of issue ''assignees'' ''login'' = Inr (map JStr as)
         \<and> map_of flds ''Labels'' = Some (if ls = [] then JNull else JStr (join '', '' ls))
         \<and> map_of flds ''Assignees'' = Some (if as = [] then JNull else JStr (join '', '' as))
         \<and> map_of flds ''Labels'' \<noteq> Some (JStr [])
         \<and> map_of flds ''Assignees'' \<noteq> Some (JStr [])"
proof -
  from feishu_fields_Inr [OF assms] obtain issue labels assignees lt at' rest where
    issue: "issue_of event = Inr issue"
    and l: "names_of issue ''labels'' ''name'' = Inr labels"
    and a: "names_of issue ''assignees'' ''login'' = Inr assignees"
    and jl: "joined_or_none labels = Inr lt" and ja: "joined_or_none assignees = Inr at'"
    and fl: "map_of flds ''Labels'' = Some lt" and fa: "map_of flds ''Assignees'' = Some at'"
    by (auto simp: map_of_dict_of)
  from joined_or_none_Inr [OF jl names_of_truthy [OF l]] obtain ls where
    ls: "labels = map JStr ls" "lt = (if ls = [] then JNull else JStr (join '', '' ls))" "lt \<noteq> JStr []"
    by blast
  from joined_or_none_Inr [OF ja names_of_truthy [OF a]] obtain as where
    as: "assignees = map JStr as" "at' = (if as = [] then JNull else JStr (join '', '' as))" "at' \<noteq> JStr []"
    by blast
  have "issue_of event = Inr issue
         \<and> names_of issue ''labels'' ''name'' = Inr (map JStr ls)
         \<and> names_of issue ''assignees'' ''login'' = Inr (map JStr as)
         \<and> map_of flds ''Labels'' = Some (if ls = [] then JNull else JStr (join '', '' ls))
         \<and> map_of flds ''Assignees'' = Some (if as = [] then JNull else JStr (join '', '' as))
         \<and> map_of flds ''Labels'' \<noteq> Some (JStr [])
         \<and> map_of flds ''Assignees'' \<noteq> Some (JStr [])"
    using issue l a fl fa ls as by simp
  then show ?thesis by blast
qed


text \<open>
  C8 (as amended). In the Feishu script the names of the labels and the logins of the
  assignees that are not empty, in their order, are joined with \<^verbatim>\<open>", "\<close>, and a list with no
  such name gives \<^verbatim>\<open>None\<close>, never the empty string. The MySQL script stores the same two
  lists as JSON text (\<^verbatim>\<open>json.dumps\<close>): the text \<^verbatim>\<open>[]\<close> for an empty list.
  The last part says what the lists are for a payload whose items each have a name.
\<close>

theorem labels_and_assignees:
  "(feishu_fields lo f event = Inr (i, flds) \<longrightarrow>
      (\<exists>issue ls as. issue_of event = Inr issue
         \<and> names_of issue ''labels'' ''name'' = Inr (map JStr ls)
         \<and> names_of issue ''assignees'' ''login'' = Inr (map JStr as)
         \<and> map_of flds ''Labels'' = Some (if ls = [] then JNull else JStr (join '', '' ls))
         \<and> map_of flds ''Assignees'' = Some (if as = [] then JNull else JStr (join '', '' as))
         \<and> map_of flds ''Labels'' \<noteq> Some (JStr [])
         \<and> map_of flds ''Assignees'' \<noteq> Some (JStr [])))
   \<and> (mysql_prepare h = Inr p \<longrightarrow>
      (\<exists>ls as. names_of (p_issue p) ''labels'' ''name'' = Inr ls
         \<and> names_of (p_issue p) ''assignees'' ''login'' = Inr as
         \<and> p_labels_json p = json_dumps (JList ls)
         \<and> p_assignees_json p = json_dumps (JList as)))
   \<and> (mysql_params p = Inr row \<longrightarrow>
        c_labels row = Py (JStr (p_labels_json p))
        \<and> c_assignees row = Py (JStr (p_assignees_json p)))
   \<and> json_dumps (JList []) = ''[]''
   \<and> (dict_get issue' list_key (JList []) = Inr (JList items)
        \<and> list_all2 (\<lambda>item n. \<exists>kvs. item = JObj kvs \<and> map_of kvs key = Some (JStr n)) items ns
        \<longrightarrow> names_of issue' list_key key = Inr (map JStr (filter (\<lambda>n. n \<noteq> []) ns)))"
  using feishu_fields_lists [of lo f event i flds] mysql_prepare_lists [of h p]
    mysql_params_lists [of p row] collect_names [of key items ns]
  by (simp add: names_of_def del: json_dumps.simps add: json_dumps_empty_list)

lemma feishu_fields_example:
  "feishu_fields lo ''Issue ID'' example_event = Inr (JInt 7, example_fields)"
  unfolding feishu_fields_def
  by (simp add: example_issue_of example_action example_names example_gets example_timestamp
      null_timestamp joined_or_none_def py_join_def int_str_def digits_eval dict_of_def
      example_fields_def)

lemma feishu_fields_unlabelled:
  "feishu_fields lo ''Issue ID'' unlabelled_event = Inr (JInt 8, unlabelled_fields)"
  unfolding feishu_fields_def
  by (simp add: unlabelled_event_def issue_of_def names_of_def null_timestamp
      joined_or_none_def int_str_def digits_eval dict_of_def unlabelled_fields_def)

theorem labels_and_assignees_witness:
  "feishu_fields utc_machine ''Issue ID'' example_event = Inr (JInt 7, example_fields)
   \<and> map_of example_fields ''Labels'' = Some (JStr ''bug, P1'')
   \<and> map_of example_fields ''Assignees'' = Some (JStr ''alice'')
   \<and> feishu_fields utc_machine ''Issue ID'' unlabelled_event = Inr (JInt 8, unlabelled_fields)
   \<and> map_of unlabelled_fields ''Labels'' = Some JNull
   \<and> map_of unlabelled_fields ''Assignees'' = Some JNull
   \<and> dict_get example_issue ''labels'' (JList [])
       = Inr (JList [JObj [(''name'', JStr ''bug'')], JObj [(''name'', JStr ''P1'')]])
   \<and> names_of example_issue ''labels'' ''name'' = Inr [JStr ''bug'', JStr ''P1'']"
proof -
  have e: "feishu_fields utc_machine ''Issue ID'' example_event = Inr (JInt 7, example_fields)"
    by (rule feishu_fields_example)
  have u: "feishu_fields utc_machine ''Issue ID'' unlabelled_event = Inr (JInt 8, unlabelled_fields)"
    by (rule feishu_fields_unlabelled)
  have g: "dict_get example_issue ''labels'' (JList [])
       = Inr (JList [JObj [(''name'', JStr ''bug'')], JObj [(''name'', JStr ''P1'')]])"
    by (simp add: example_issue_def)
  have l2: "list_all2 (\<lambda>item n. \<exists>kvs. item = JObj kvs \<and> map_of kvs ''name'' = Some (JStr n))
       [JObj [(''name'', JStr ''bug'')], JObj [(''name'', JStr ''P1'')]] [''bug'', ''P1'']"
    by simp
  have n: "names_of example_issue ''labels'' ''name'' = Inr [JStr ''bug'', JStr ''P1'']"
    using labels_and_assignees [THEN conjunct2, THEN conjunct2, THEN conjunct2, THEN conjunct2,
        rule_format, OF conjI [OF g l2]]
    by simp
  from labels_and_assignees [THEN conjunct1, rule_format, OF e] obtain ls as where
    "names_of example_issue ''labels'' ''name'' = Inr (map JStr ls)"
    "names_of example_issue ''assignees'' ''login'' = Inr (map JStr as)"
    "map_of example_fields ''Labels'' = Some (if ls = [] then JNull else JStr (join '', '' ls))"
    "map_of example_fields ''Assignees'' = Some (if as = [] then JNull else JStr (join '', '' as))"
    by (auto simp: example_issue_of)
  then have 1: "map_of example_fields ''Labels'' = Some (JStr ''bug, P1'')"
    "map_of example_fields ''Assignees'' = Some (JStr ''alice'')"
    by (simp_all add: example_fields_def)
  from labels_and_assignees [THEN conjunct1, rule_format, OF u] have 2:
    "map_of unlabelled_fields ''Labels'' = Some JNull"
    "map_of unlabelled_fields ''Assignees'' = Some JNull"
    by (simp_all add: unlabelled_fields_def)
  from e u g n 1 2 show ?thesis by simp
qed

lemma mysql_prepare_unlabelled:
  "mysql_prepare (example_host\<lparr>files := example_files unlabelled_event\<rparr>)
     = Inr \<lparr>p_issue = JObj [(''id'', JInt 8), (''labels'', JList []), (''assignees'', JList [])],
            p_action = JStr ''opened'', p_payload_json = json_dumps unlabelled_event,
            p_labels_json = ''[]'', p_assignees_json = ''[]'',
            p_created_at = None, p_updated_at = None, p_closed_at = None\<rparr>"
proof -
  have i: "issue_of unlabelled_event
             = Inr (JObj [(''id'', JInt 8), (''labels'', JList []), (''assignees'', JList [])])"
    "dict_get unlabelled_event ''action'' (JStr ''unknown'') = Inr (JStr ''opened'')"
    by (simp_all add: unlabelled_event_def issue_of_def)
  show ?thesis
    unfolding mysql_prepare_def
    by (simp add: env_def getenv_def example_host_def example_environ_def example_files_def
        load_event_def i names_of_def null_timestamp json_dumps_empty_list
        del: json_dumps.simps)
qed

text \<open>
  C8 as stated fails for the MySQL script: it does not join the names but stores the
  lists as JSON text, so that an issue without labels and assignees gets the text \<^verbatim>\<open>[]\<close>
  in both columns, not \<^verbatim>\<open>NULL\<close>, and the labels \<^verbatim>\<open>bug\<close> and \<^verbatim>\<open>P1\<close> give
  \<^verbatim>\<open>["bug", "P1"]\<close>.
\<close>

theorem mysql_lists_are_json_text:
  "map_sum id c_labels
      (then_do (mysql_prepare (example_host\<lparr>files := example_files unlabelled_event\<rparr>)) mysql_params)
     = Inr (Py (JStr ''[]''))
   \<and> map_sum id c_assignees
      (then_do (mysql_prepare (example_host\<lparr>files := example_files unlabelled_event\<rparr>)) mysql_params)
     = Inr (Py (JStr ''[]''))
   \<and> map_sum id c_labels (then_do (mysql_prepare example_host) mysql_params)
     = Inr (Py (JStr (''['' @ [CHR 0x22] @ ''bug'' @ [CHR 0x22] @ '', ''
                        @ [CHR 0x22] @ ''P1'' @ [CHR 0x22] @ '']'')))"
proof -
  have e: "example_host = example_host\<lparr>environ := example_environ\<rparr>"
    by (simp add: example_host_def)
  have p: "mysql_prepare example_host = Inr \<lparr>p_issue = example_issue, p_action = JStr ''opened'',
            p_payload_json = json_dumps example_event,
            p_labels_json = json_dumps (JList [JStr ''bug'', JStr ''P1'']),
            p_assignees_json = json_dumps (JList [JStr ''alice'']),
            p_created_at = Some \<lparr>year = 2024, month = 1, day = 2, hour = 3, minute = 4,
                                  second = 5, microsecond = 0, utcoffset = Some 0\<rparr>,
            p_updated_at = Some \<lparr>year = 2024, month = 1, day = 2, hour = 3, minute = 4,
                                  second = 5, microsecond = 0, utcoffset = Some 0\<rparr>,
            p_closed_at = None\<rparr>"
    by (subst e, rule mysql_prepare_example) (simp add: example_environ_def)
  have d: "json_dumps (JList [JStr ''bug'', JStr ''P1''])
             = ''['' @ [CHR 0x22] @ ''bug'' @ [CHR 0x22] @ '', '' @ [CHR 0x22] @ ''P1'' @ [CHR 0x22] @ '']''"
    by (simp add: dumps_str_def dumps_char_def)
  show ?thesis
    unfolding p mysql_prepare_unlabelled
    by (simp add: mysql_params_def example_gets d del: json_dumps.simps)
qed

subsection \<open>Refused responses end the run\<close>

lemma request_json_one:
  assumes "request_json srv m u hs p w = (r, w')"
  shows "\<exists>req out. exchanges w' = exchanges w @ [(req, out)]
           \<and> (case out of
                 Http_error code reason detail \<Rightarrow>
                   r = Inl (SystemExit (''HTTP '' @ digits code @ '' '' @ reason @ '': '' @ detail))
               | Json_body v \<Rightarrow> r = Inr v
               | _ \<Rightarrow> \<exists>e. r = Inl e)"
proof -
  define req where "req = \<lparr>http_method = m, url = u, headers = hs, payload = p\<rparr>"
  define out where "out = fst (srv (remote w) req)"
  have ex: "exchanges w' = exchanges w @ [(req, out)]"
    using assms by (cases out) (auto simp: request_json_def Let_def req_def out_def)
  have c: "case out of
                 Http_error code reason detail \<Rightarrow>
                   r = Inl (SystemExit (''HTTP '' @ digits code @ '' '' @ reason @ '': '' @ detail))
               | Json_body v \<Rightarrow> r = Inr v
               | _ \<Rightarrow> \<exists>e. r = Inl e"
    using assms unfolding request_json_def Let_def req_def [symmetric] out_def [symmetric]
    by (cases out) (auto simp del: append.simps)
  from ex c show ?thesis by blast
qed

lemma check_code_refused:
  "refused (Json_body response) \<Longrightarrow>
     check_code what response = Inl (SystemExit (what @ '': '' @ py_str response))"
  by (auto simp: refused_def check_code_def split: json.splits)

lemma check_code_accepted:
  "check_code what response = Inr u \<Longrightarrow> \<not> refused (Json_body response)"
  by (cases response) (auto simp: refused_def check_code_def split: if_splits)

lemma checked_request:
  assumes rq: "request_json srv m u hs p w = (r0, w1)"
    and r: "r = (case r0 of Inl e \<Rightarrow> Inl e
                 | Inr response \<Rightarrow> then_do (check_code what response) (k response))"
    and what: "what \<in> set failure_messages"
  shows "\<exists>x. exchanges w1 = exchanges w @ [x]
           \<and> (refused (snd x) \<longrightarrow> reports r (snd x))
           \<and> ((\<exists>v. r = Inr v) \<longrightarrow> \<not> refused (snd x))"
proof -
  from request_json_one [OF rq] obtain req out where
    ex: "exchanges w1 = exchanges w @ [(req, out)]"
    and out: "case out of
                 Http_error code reason detail \<Rightarrow>
                   r0 = Inl (SystemExit (''HTTP '' @ digits code @ '' '' @ reason @ '': '' @ detail))
               | Json_body v \<Rightarrow> r0 = Inr v
               | _ \<Rightarrow> \<exists>e. r0 = Inl e"
    by blast
  have a: "refused out \<longrightarrow> reports r out"
  proof
    assume ref: "refused out"
    show "reports r out"
    proof (cases out)
      case (Http_error code reason detail)
      with out r show ?thesis by (simp add: reports_def)
    next
      case (Json_body v)
      with out have "r0 = Inr v" by simp
      with r check_code_refused [of v what] ref Json_body what show ?thesis
        by (simp add: reports_def)
    qed (use ref in \<open>simp_all add: refused_def\<close>)
  qed
  have b: "(\<exists>v. r = Inr v) \<longrightarrow> \<not> refused out"
  proof
    assume "\<exists>v. r = Inr v"
    then obtain v where v: "r = Inr v" by blast
    show "\<not> refused out"
    proof (cases out)
      case (Http_error code reason detail)
      with out r v show ?thesis by simp
    next
      case (Json_body j)
      with out have "r0 = Inr j" by simp
      with r v have "then_do (check_code what j) (k j) = Inr v" by simp
      then obtain u where "check_code what j = Inr u"
        by (auto simp: then_do_eq_Inr)
      with Json_body show ?thesis by (simp add: check_code_accepted)
    qed (simp_all add: refused_def)
  qed
  from ex a b show ?thesis by simp
qed

lemma get_tenant_token_one:
  assumes "get_tenant_token srv b a s w = (r, w')"
  shows "\<exists>x. exchanges w' = exchanges w @ [x]
           \<and> (refused (snd x) \<longrightarrow> reports r (snd x))
           \<and> ((\<exists>v. r = Inr v) \<longrightarrow> \<not> refused (snd x))"
proof -
  obtain r0 w1 where rq: "request_json srv ''POST''
             (b @ ''/open-apis/auth/v3/tenant_access_token/internal'') json_headers
             (JObj [(''app_id'', JStr a), (''app_secret'', JStr s)]) w = (r0, w1)"
    by (cases "request_json srv ''POST''
             (b @ ''/open-apis/auth/v3/tenant_access_token/internal'') json_headers
             (JObj [(''app_id'', JStr a), (''app_secret'', JStr s)]) w") auto
  with assms have w: "w1 = w'" and
    r: "r = (case r0 of Inl e \<Rightarrow> Inl e | Inr response \<Rightarrow>
            then_do (check_code ''Failed to get tenant token'' response)
              (\<lambda>_. py_index response ''tenant_access_token''))"
    by (auto simp: get_tenant_token_def split: sum.splits)
  from checked_request [OF rq [unfolded w] r] show ?thesis
    by (simp add: failure_messages_def)
qed

lemma bitable_search_one:
  assumes "bitable_search srv b tok a t i f w = (r, w')"
  shows "\<exists>x. exchanges w' = exchanges w @ [x]
           \<and> (refused (snd x) \<longrightarrow> reports r (snd x))
           \<and> ((\<exists>v. r = Inr v) \<longrightarrow> \<not> refused (snd x))"
proof -
  obtain r0 w1 where rq: "request_json srv ''POST'' (records_url b a t @ ''/search'')
             (auth_headers tok) (search_payload f i) w = (r0, w1)"
    by (cases "request_json srv ''POST'' (records_url b a t @ ''/search'')
             (auth_headers tok) (search_payload f i) w") auto
  with assms have w: "w1 = w'" and
    r: "r = (case r0 of Inl e \<Rightarrow> Inl e | Inr response \<Rightarrow>
            then_do (check_code ''Failed to search bitable records'' response) (\<lambda>_.
           then_do (dict_get response ''data'' (JObj [])) (\<lambda>data.
           then_do (dict_get data ''items'' (JList [])) (\<lambda>items.
           if \<not> truthy items then Inr JNull
           else then_do (first_item items) (\<lambda>item. dict_get item ''record_id'' JNull)))))"
    by (auto simp: bitable_search_def split: sum.splits)
  from checked_request [OF rq [unfolded w] r] show ?thesis
    by (simp add: failure_messages_def)
qed

lemma write_one:
  assumes rq: "request_json srv m u hs p w = (r0, w')"
    and r: "r = (case r0 of Inl e \<Rightarrow> Inl e | Inr response \<Rightarrow> check_code what response)"
    and what: "what \<in> set failure_messages"
  shows "\<exists>x. exchanges w' = exchanges w @ [x]
           \<and> (refused (snd x) \<longrightarrow> reports r (snd x))
           \<and> ((\<exists>v. r = Inr v) \<longrightarrow> \<not> refused (snd x))"
proof -
  have "r = (case r0 of Inl e \<Rightarrow> Inl e
             | Inr response \<Rightarrow> then_do (check_code what response) ((\<lambda>_. Inr) response))"
    using r by (auto simp: then_do_def split: sum.splits)
  from checked_request [OF rq this what] show ?thesis .
qed

lemma bitable_create_one:
  assumes "bitable_create srv b tok a t flds w = (r, w')"
  shows "\<exists>x. exchanges w' = exchanges w @ [x]
           \<and> (refused (snd x) \<longrightarrow> reports r (snd x))
           \<and> ((\<exists>v. r = Inr v) \<longrightarrow> \<not> refused (snd x))"
proof -
  obtain r0 w1 where rq: "request_json srv ''POST'' (records_url b a t)
             (auth_headers tok) (JObj [(''fields'', JObj flds)]) w = (r0, w1)"
    by (cases "request_json srv ''POST'' (records_url b a t)
             (auth_headers tok) (JObj [(''fields'', JObj flds)]) w") auto
  with assms have w: "w1 = w'" and
    r: "r = (case r0 of Inl e \<Rightarrow> Inl e | Inr response \<Rightarrow>
            check_code ''Failed to create bitable record'' response)"
    by (auto simp: bitable_create_def split: sum.splits)
  from write_one [OF rq [unfolded w] r] show ?thesis
    by (simp add: failure_messages_def)
qed

lemma reports_Inl: "reports (Inl e :: error + 'a) out = reports (Inl e :: error + 'b) out"
  by (auto simp: reports_def failure_messages_def split: outcome.splits)

lemma bitable_upsert_trace:
  assumes "bitable_upsert srv b tok a t i f flds w = (r, w')"
  shows "\<exists>new. exchanges w' = exchanges w @ new \<and> new \<noteq> [] \<and> length new \<le> 2
           \<and> list_all (\<lambda>x. \<not> refused (snd x)) (butlast new)
           \<and> (refused (snd (last new)) \<longrightarrow> reports r (snd (last new)))
           \<and> ((\<exists>v. r = Inr v) \<longrightarrow> \<not> refused (snd (last new)))"
proof -
  obtain rs w1 where s: "bitable_search srv b tok a t i f w = (rs, w1)"
    by (cases "bitable_search srv b tok a t i f w") auto
  from bitable_search_one [OF s] obtain x1 where
    x1: "exchanges w1 = exchanges w @ [x1]" "refused (snd x1) \<longrightarrow> reports rs (snd x1)"
      "(\<exists>v. rs = Inr v) \<longrightarrow> \<not> refused (snd x1)"
    by blast
  show ?thesis
  proof (cases rs)
    case (Inl e)
    with assms s have "r = Inl e" "w' = w1" by (simp_all add: bitable_upsert_def)
    with x1 Inl show ?thesis
      by (intro exI [of _ "[x1]"]) (simp add: reports_Inl [of e _, where ?'a = unit and ?'b = json])
  next
    case (Inr rid)
    define m where "m = (if truthy rid then ''PUT'' else ''POST'')"
    define u where "u = (if truthy rid then records_url b a t @ ''/'' @ py_str rid
                         else records_url b a t)"
    obtain r0 w2 where q: "request_json srv m u (auth_headers tok)
        (JObj [(''fields'', JObj flds)]) w1 = (r0, w2)"
      by (cases "request_json srv m u (auth_headers tok) (JObj [(''fields'', JObj flds)]) w1") auto
    with assms s Inr have w: "w2 = w'" and
      r: "r = (case r0 of Inl e \<Rightarrow> Inl e | Inr response \<Rightarrow>
                 check_code ''Failed to upsert bitable record'' response)"
      by (auto simp: bitable_upsert_def m_def u_def split: sum.splits if_splits)
    from write_one [OF q [unfolded w] r] obtain x2 where
      x2: "exchanges w' = exchanges w1 @ [x2]" "refused (snd x2) \<longrightarrow> reports r (snd x2)"
        "(\<exists>v. r = Inr v) \<longrightarrow> \<not> refused (snd x2)"
      by (auto simp: failure_messages_def)
    from x1 x2 Inr show ?thesis
      by (intro exI [of _ "[x1, x2]"]) simp
  qed
qed

text \<open>
  C4. A run of the Feishu script makes at most three exchanges (token, search, write).
  Every exchange but the last got a response that was not refused, so a refused response
  (a status that is not a success, or a JSON response whose \<^verbatim>\<open>code\<close> differs from 0) is
  the last exchange of the run: no later step is made and nothing is sent again. The run
  then ends with \<^verbatim>\<open>SystemExit\<close>, whose message carries the detail of that response. A
  run that succeeds ends on a response that was not refused.
\<close>

theorem refused_response_ends_run:
  assumes "main_feishu h srv w = (r, w')"
  shows "\<exists>new. exchanges w' = exchanges w @ new \<and> length new \<le> 3
           \<and> list_all (\<lambda>x. \<not> refused (snd x)) (butlast new)
           \<and> (new \<noteq> [] \<and> refused (snd (last new)) \<longrightarrow> reports r (snd (last new)))
           \<and> (r = Inr () \<longrightarrow> new \<noteq> [] \<and> \<not> refused (snd (last new)))"
proof (cases "feishu_plan h")
  case (Inl e)
  with assms have "r = Inl e" "w' = w" by (simp_all add: main_feishu_def)
  then show ?thesis by (intro exI [of _ "[]"]) simp
next
  case (Inr plan)
  obtain c i flds where plan: "plan = (c, i, flds)" by (cases plan) auto
  obtain rt w1 where t: "get_tenant_token srv (base_url c) (app_id c) (app_secret c) w = (rt, w1)"
    by (cases "get_tenant_token srv (base_url c) (app_id c) (app_secret c) w") auto
  from get_tenant_token_one [OF t] obtain x0 where
    x0: "exchanges w1 = exchanges w @ [x0]" "refused (snd x0) \<longrightarrow> reports rt (snd x0)"
      "(\<exists>v. rt = Inr v) \<longrightarrow> \<not> refused (snd x0)"
    by blast
  show ?thesis
  proof (cases rt)
    case (Inl e)
    with assms Inr plan t have "r = Inl e" "w' = w1" by (simp_all add: main_feishu_def)
    with x0 Inl show ?thesis
      by (intro exI [of _ "[x0]"]) (simp add: reports_Inl [of e _, where ?'a = unit and ?'b = json])
  next
    case tok: (Inr token)
    have "\<exists>new. exchanges w' = exchanges w1 @ new \<and> new \<noteq> [] \<and> length new \<le> 2
           \<and> list_all (\<lambda>x. \<not> refused (snd x)) (butlast new)
           \<and> (refused (snd (last new)) \<longrightarrow> reports r (snd (last new)))
           \<and> ((\<exists>v. r = Inr v) \<longrightarrow> \<not> refused (snd (last new)))"
    proof (cases "upsert c")
      case True
      with assms Inr plan t tok have
        "bitable_upsert srv (base_url c) token (app_token c) (table_id c) i (issue_id_field c)
           flds w1 = (r, w')"
        by (simp add: main_feishu_def)
      then show ?thesis by (rule bitable_upsert_trace)
    next
      case False
      with assms Inr plan t tok have
        "bitable_create srv (base_url c) token (app_token c) (table_id c) flds w1 = (r, w')"
        by (simp add: main_feishu_def)
      from bitable_create_one [OF this] obtain x where
        "exchanges w' = exchanges w1 @ [x]" "refused (snd x) \<longrightarrow> reports r (snd x)"
        "(\<exists>v. r = Inr v) \<longrightarrow> \<not> refused (snd x)"
        by blast
      then show ?thesis by (intro exI [of _ "[x]"]) simp
    qed
    then obtain new where new: "exchanges w' = exchanges w1 @ new" "new \<noteq> []" "length new \<le> 2"
      "list_all (\<lambda>x. \<not> refused (snd x)) (butlast new)"
      "refused (snd (last new)) \<longrightarrow> reports r (snd (last new))"
      "(\<exists>v. r = Inr v) \<longrightarrow> \<not> refused (snd (last new))"
      by blast
    from x0 tok have ok0: "\<not> refused (snd x0)" by simp
    from new x0 ok0 show ?thesis
      by (intro exI [of _ "x0 # new"]) simp
  qed
qed

lemma feishu_config_example: "feishu_config example_environ = Inr example_config"
  by (simp add: feishu_config_def env_def getenv_def getenv_or_def example_environ_def
      example_config_def)

lemma feishu_plan_example:
  "feishu_plan example_host = Inr (example_config, JInt 7, example_fields)"
  by (simp add: feishu_plan_def example_host_def feishu_config_example load_event_def
      example_files_def feishu_fields_example example_config_def)

theorem refused_response_ends_run_witness:
  "main_feishu example_host rejecting start
     = (Inl (SystemExit (''Failed to search bitable records: '' @ py_str refusal)),
        \<lparr>remote = (),
         exchanges =
           [(\<lparr>http_method = ''POST'',
              url = ''https://open.feishu.cn/open-apis/auth/v3/tenant_access_token/internal'',
              headers = json_headers,
              payload = JObj [(''app_id'', JStr ''cli_a''), (''app_secret'', JStr ''secret'')]\<rparr>,
             Json_body (JObj [(''code'', JInt 0), (''tenant_access_token'', JStr ''t-123'')])),
            (\<lparr>http_method = ''POST'',
              url = ''https://open.feishu.cn/open-apis/bitable/v1/apps/app/tables/tbl/records/search'',
              headers = auth_headers (JStr ''t-123''),
              payload = search_payload ''Issue ID'' (JInt 7)\<rparr>,
             Json_body refusal)]\<rparr>)
   \<and> refused (Json_body refusal)
   \<and> reports (Inl (SystemExit (''Failed to search bitable records: '' @ py_str refusal))
               :: error + unit) (Json_body refusal)
   \<and> main_feishu example_host forbidding start
     = (Inl (SystemExit ''HTTP 403 Forbidden: no access''),
        \<lparr>remote = (),
         exchanges =
           [(\<lparr>http_method = ''POST'',
              url = ''https://open.feishu.cn/open-apis/auth/v3/tenant_access_token/internal'',
              headers = json_headers,
              payload = JObj [(''app_id'', JStr ''cli_a''), (''app_secret'', JStr ''secret'')]\<rparr>,
             Http_error 403 ''Forbidden'' ''no access'')]\<rparr>)
   \<and> refused (Http_error 403 ''Forbidden'' ''no access'')
   \<and> reports (Inl (SystemExit ''HTTP 403 Forbidden: no access'') :: error + unit)
         (Http_error 403 ''Forbidden'' ''no access'')"
proof -
  have r1: "refused (Json_body refusal)"
    by (simp add: refused_def refusal_def differs_from_zero_def)
  have r2: "refused (Http_error 403 ''Forbidden'' ''no access'')"
    by (simp add: refused_def)
  have c: "check_code ''Failed to search bitable records'' refusal
             = Inl (SystemExit (''Failed to search bitable records: '' @ py_str refusal))"
    using check_code_refused [OF r1, of "''Failed to search bitable records''"] by simp
  have ct: "check_code what (JObj [(''code'', JInt 0), (''tenant_access_token'', JStr ''t-123'')])
              = Inr ()" for what
    by (simp add: check_code_def differs_from_zero_def)
  have tok: "get_tenant_token rejecting ''https://open.feishu.cn'' ''cli_a'' ''secret'' start
     = (Inr (JStr ''t-123''),
        \<lparr>remote = (),
         exchanges =
           [(\<lparr>http_method = ''POST'',
              url = ''https://open.feishu.cn/open-apis/auth/v3/tenant_access_token/internal'',
              headers = json_headers,
              payload = JObj [(''app_id'', JStr ''cli_a''), (''app_secret'', JStr ''secret'')]\<rparr>,
             Json_body (JObj [(''code'', JInt 0), (''tenant_access_token'', JStr ''t-123'')]))]\<rparr>)"
    by (simp add: get_tenant_token_def request_json_def rejecting_def start_def ct)
  have run1: "main_feishu example_host rejecting start
     = (Inl (SystemExit (''Failed to search bitable records: '' @ py_str refusal)),
        \<lparr>remote = (),
         exchanges =
           [(\<lparr>http_method = ''POST'',
              url = ''https://open.feishu.cn/open-apis/auth/v3/tenant_access_token/internal'',
              headers = json_headers,
              payload = JObj [(''app_id'', JStr ''cli_a''), (''app_secret'', JStr ''secret'')]\<rparr>,
             Json_body (JObj [(''code'', JInt 0), (''tenant_access_token'', JStr ''t-123'')])),
            (\<lparr>http_method = ''POST'',
              url = ''https://open.feishu.cn/open-apis/bitable/v1/apps/app/tables/tbl/records/search'',
              headers = auth_headers (JStr ''t-123''),
              payload = search_payload ''Issue ID'' (JInt 7)\<rparr>,
             Json_body refusal)]\<rparr>)"
    by (simp add: main_feishu_def feishu_plan_example example_config_def tok
        bitable_upsert_def bitable_search_def request_json_def rejecting_def records_url_def c
        del: py_str.simps)
  have run2: "main_feishu example_host forbidding start
     = (Inl (SystemExit ''HTTP 403 Forbidden: no access''),
        \<lparr>remote = (),
         exchanges =
           [(\<lparr>http_method = ''POST'',
              url = ''https://open.feishu.cn/open-apis/auth/v3/tenant_access_token/internal'',
              headers = json_headers,
              payload = JObj [(''app_id'', JStr ''cli_a''), (''app_secret'', JStr ''secret'')]\<rparr>,
             Http_error 403 ''Forbidden'' ''no access'')]\<rparr>)"
    by (simp add: main_feishu_def feishu_plan_example example_config_def get_tenant_token_def
        request_json_def forbidding_def start_def digits_eval)
  from refused_response_ends_run [OF run1] r1 have rep1:
    "reports (Inl (SystemExit (''Failed to search bitable records: '' @ py_str refusal))
               :: error + unit) (Json_body refusal)"
    by (auto simp: start_def simp del: py_str.simps)
  from refused_response_ends_run [OF run2] r2 have rep2:
    "reports (Inl (SystemExit ''HTTP 403 Forbidden: no access'') :: error + unit)
         (Http_error 403 ''Forbidden'' ''no access'')"
    by (auto simp: start_def)
  from run1 run2 r1 r2 rep1 rep2 show ?thesis by blast
qed

subsection \<open>Commit and close\<close>

lemmas db_defs = db_connect_def db_cursor_def ensure_schema_def db_upsert_def db_commit_def
  db_close_def failed_def logged_def

lemma in_connection_trace:
  assumes "connected d" "working d = stored d" "in_connection faults now p d = (r, d')"
  shows "\<exists>new. calls d' = calls d @ new \<and> connected d'
     \<and> set new \<subseteq> {(Cursor, True), (Cursor, False), (Create_table, True), (Create_table, False),
                    (Commit, True), (Commit, False)} \<union> {(Upsert row, ok) | row ok. True}
     \<and> (Commit \<in> fst ` set new \<longleftrightarrow>
           (Create_table, True) \<in> set new \<and> (\<exists>row. (Upsert row, True) \<in> set new))
     \<and> (r = Inr () \<longleftrightarrow> (Commit, True) \<in> set new)
     \<and> (r \<noteq> Inr () \<longrightarrow> rows_of (stored d') = rows_of (stored d)
           \<and> (stored d' = stored d \<or> (stored d = None \<and> (Create_table, True) \<in> set new)))"
  using assms
  unfolding in_connection_def
  by (auto simp: db_defs rows_of_def Let_def image_iff
      split: sum.splits prod.splits option.splits if_splits)

lemma mysql_prepare_example_host: "mysql_prepare example_host = Inr example_prepared"
proof -
  have e: "example_host = example_host\<lparr>environ := example_environ\<rparr>"
    by (simp add: example_host_def)
  show ?thesis
    by (subst e, subst mysql_prepare_example)
      (simp_all add: example_environ_def example_prepared_def example_moment_def
        del: json_dumps.simps)
qed

lemma mysql_params_example: "mysql_params example_prepared = Inr example_row"
  by (simp add: mysql_params_def example_prepared_def example_gets example_row_def moment_def
      del: json_dumps.simps)

lemma connect_args_example:
  "connect_args example_environ = Inr (''db.local'', 3306, ''sync'', ''pw'', ''github'')"
  by (simp add: connect_args_def env_def getenv_def getenv_or_def example_environ_def
      py_int_def strip_def is_space_def is_sign_def is_digit_def decimal_def Let_def)

lemma key_of_example: "key_of (c_id example_row) = Some 7"
  by (simp add: key_of_def example_row_def)

text \<open>
  C5 (as amended). In a run of the MySQL script that starts without a connection,
  \<^verbatim>\<open>commit\<close> is called exactly when the schema statement and the insert have both
  succeeded, and the run succeeds exactly when the commit does. No connection is left
  open, and \<^verbatim>\<open>close\<close> is the last call exactly when a connection was opened (when
  \<^verbatim>\<open>connect\<close> itself fails there is nothing to close). When the run fails the rows of the
  table are those before the run; the table itself may have been created by the run, since
  MySQL commits \<^verbatim>\<open>CREATE TABLE\<close> at once.
\<close>

theorem commit_and_close:
  assumes "\<not> connected d" and "main_mysql h faults now d = (r, d')"
  shows "\<exists>new. calls d' = calls d @ new
     \<and> (Commit \<in> fst ` set new \<longleftrightarrow>
           (Create_table, True) \<in> set new \<and> (\<exists>row. (Upsert row, True) \<in> set new))
     \<and> (r = Inr () \<longleftrightarrow> (Commit, True) \<in> set new)
     \<and> \<not> connected d'
     \<and> (list_ex (\<lambda>x. is_connect (fst x) \<and> snd x) new \<longleftrightarrow> new \<noteq> [] \<and> last new = (Close, True))
     \<and> (r \<noteq> Inr () \<longrightarrow> rows_of (stored d') = rows_of (stored d)
           \<and> (stored d' = stored d \<or> (stored d = None \<and> (Create_table, True) \<in> set new)))"
proof (cases "mysql_prepare h")
  case (Inl e)
  with assms have "r = Inl e" "d' = d" by (simp_all add: main_mysql_def)
  with assms(1) show ?thesis by (intro exI [of _ "[]"]) simp
next
  case (Inr p)
  show ?thesis
  proof (cases "connect_args (environ h)")
    case (Inl e)
    with assms Inr have "r = Inl e" "d' = d" by (simp_all add: main_mysql_def connect_mysql_def)
    with assms(1) show ?thesis by (intro exI [of _ "[]"]) simp
  next
    case args: (Inr args)
    obtain host port user password database where
      a: "args = (host, port, user, password, database)"
      by (cases args) auto
    define c where "c = Connect host port user password database"
    show ?thesis
    proof (cases "faults c")
      case True
      with assms Inr args a have "r = Inl (Uncaught DatabaseError)" "d' = logged c False d"
        by (simp_all add: main_mysql_def connect_mysql_def db_connect_def failed_def c_def)
      with assms(1) show ?thesis
        by (intro exI [of _ "[(c, False)]"]) (simp add: logged_def c_def)
    next
      case False
      define d1 where "d1 = logged c True (d\<lparr>connected := True, working := stored d\<rparr>)"
      have d1: "connected d1" "working d1 = stored d1" "stored d1 = stored d"
        "calls d1 = calls d @ [(c, True)]"
        by (simp_all add: d1_def logged_def)
      obtain r2 d2 where i: "in_connection faults now p d1 = (r2, d2)"
        by (cases "in_connection faults now p d1") auto
      with assms Inr args a False have rd: "r = r2" "d' = db_close d2"
        by (simp_all add: main_mysql_def connect_mysql_def db_connect_def c_def d1_def)
      from in_connection_trace [OF d1(1,2) i] obtain new where new:
        "calls d2 = calls d1 @ new"
        "set new \<subseteq> {(Cursor, True), (Cursor, False), (Create_table, True), (Create_table, False),
                    (Commit, True), (Commit, False)} \<union> {(Upsert row, ok) | row ok. True}"
        "Commit \<in> fst ` set new \<longleftrightarrow>
           (Create_table, True) \<in> set new \<and> (\<exists>row. (Upsert row, True) \<in> set new)"
        "r2 = Inr () \<longleftrightarrow> (Commit, True) \<in> set new"
        "r2 \<noteq> Inr () \<longrightarrow> rows_of (stored d2) = rows_of (stored d1)
           \<and> (stored d2 = stored d1 \<or> (stored d1 = None \<and> (Create_table, True) \<in> set new))"
        by blast
      have nc: "(c, True) \<notin> set new" "(c, False) \<notin> set new" "(Close, True) \<notin> set new"
        "Commit \<noteq> c" "Create_table \<noteq> c" "\<And>row. Upsert row \<noteq> c"
        using new(2) by (auto simp: c_def)
      have "calls d' = calls d @ ((c, True) # new @ [(Close, True)])"
        using rd new(1) d1(4) by (simp add: db_close_def logged_def)
      moreover have "\<not> connected d'" using rd by (simp add: db_close_def logged_def)
      moreover have "stored d' = stored d2" using rd by (simp add: db_close_def logged_def)
      ultimately show ?thesis
        using new(3,4,5) rd(1) d1(3) nc
        by (intro exI [of _ "(c, True) # new @ [(Close, True)]"])
          (auto simp: c_def image_iff)
    qed
  qed
qed

lemma environ_example_host: "environ example_host = example_environ"
  by (simp add: example_host_def)

lemma main_mysql_insert_fails:
  "main_mysql example_host insert_fails now example_db
     = (Inl (Uncaught DatabaseError),
        \<lparr>stored = Some Map.empty, working = None, connected = False,
         calls = [(example_connection, True), (Cursor, True), (Create_table, True),
                  (Upsert example_row, False), (Close, True)]\<rparr>)"
  by (simp add: main_mysql_def mysql_prepare_example_host connect_mysql_def environ_example_host
      connect_args_example in_connection_def db_defs mysql_params_example key_of_example
      insert_fails_def example_db_def example_connection_def Let_def)

lemma main_mysql_no_faults:
  "main_mysql example_host no_faults now example_db
     = (Inr (),
        \<lparr>stored = Some [7 \<mapsto> (example_row, now)], working = None, connected = False,
         calls = [(example_connection, True), (Cursor, True), (Create_table, True),
                  (Upsert example_row, True), (Commit, True), (Close, True)]\<rparr>)"
  by (simp add: main_mysql_def mysql_prepare_example_host connect_mysql_def environ_example_host
      connect_args_example in_connection_def db_defs mysql_params_example key_of_example
      no_faults_def example_db_def example_connection_def Let_def)

text \<open>
  C5 as stated fails where it says that the state is unchanged on error: on a database
  without the table, a run whose insert is rejected ends with the error and without a
  commit, and the table has been created.
\<close>

theorem failed_run_leaves_table:
  "stored example_db = None
   \<and> fst (main_mysql example_host insert_fails 0 example_db) = Inl (Uncaught DatabaseError)
   \<and> stored (snd (main_mysql example_host insert_fails 0 example_db)) \<noteq> None
   \<and> Commit \<notin> fst ` set (calls (snd (main_mysql example_host insert_fails 0 example_db)))"
  by (simp add: main_mysql_insert_fails) (simp add: example_db_def example_connection_def)

theorem commit_and_close_witness:
  "\<not> connected example_db
   \<and> fst (main_mysql example_host insert_fails 0 example_db) = Inl (Uncaught DatabaseError)
   \<and> calls (snd (main_mysql example_host insert_fails 0 example_db))
       = [(example_connection, True), (Cursor, True), (Create_table, True),
          (Upsert example_row, False), (Close, True)]
   \<and> rows_of (stored (snd (main_mysql example_host insert_fails 0 example_db)))
       = rows_of (stored example_db)
   \<and> \<not> connected (snd (main_mysql example_host insert_fails 0 example_db))
   \<and> fst (main_mysql example_host no_faults 0 example_db) = Inr ()
   \<and> calls (snd (main_mysql example_host no_faults 0 example_db))
       = [(example_connection, True), (Cursor, True), (Create_table, True),
          (Upsert example_row, True), (Commit, True), (Close, True)]
   \<and> \<not> connected (snd (main_mysql example_host no_faults 0 example_db))"
proof -
  have nc: "\<not> connected example_db" by (simp add: example_db_def)
  obtain r1 d1 where run1: "main_mysql example_host insert_fails 0 example_db = (r1, d1)"
    by (cases "main_mysql example_host insert_fails 0 example_db") auto
  obtain r2 d2 where run2: "main_mysql example_host no_faults 0 example_db = (r2, d2)"
    by (cases "main_mysql example_host no_faults 0 example_db") auto
  from run1 have e1: "r1 = Inl (Uncaught DatabaseError)"
    "calls d1 = [(example_connection, True), (Cursor, True), (Create_table, True),
          (Upsert example_row, False), (Close, True)]"
    by (auto simp: main_mysql_insert_fails)
  from run2 have e2: "r2 = Inr ()"
    "calls d2 = [(example_connection, True), (Cursor, True), (Create_table, True),
          (Upsert example_row, True), (Commit, True), (Close, True)]"
    by (auto simp: main_mysql_no_faults)
  from commit_and_close [OF nc run1] e1(1) have p1:
    "rows_of (stored d1) = rows_of (stored example_db)" "\<not> connected d1"
    by auto
  from commit_and_close [OF nc run2] have p2: "\<not> connected d2"
    by auto
  from nc e1 e2 p1 p2 show ?thesis
    unfolding run1 run2 by simp
qed

subsection \<open>Two runs of the MySQL script\<close>

lemma main_mysql_success:
  assumes "\<not> connected d" and "main_mysql h faults now d = (Inr (), d')"
  shows "\<exists>p row k. mysql_prepare h = Inr p \<and> mysql_params p = Inr row
           \<and> key_of (c_id row) = Some k
           \<and> stored d' = Some ((rows_of (stored d))(k \<mapsto> (row, now)))
           \<and> \<not> connected d'"
  using assms
  unfolding main_mysql_def connect_mysql_def in_connection_def
  by (auto simp: db_defs rows_of_def Let_def
      split: sum.splits prod.splits option.splits if_splits)

lemma mysql_prepare_Inr:
  assumes "mysql_prepare h = Inr p"
  shows "\<exists>path event labels assignees created updated closed.
      env (environ h) ''GITHUB_EVENT_PATH'' None = Inr path
      \<and> load_event (files h) path = Inr event
      \<and> issue_of event = Inr (p_issue p)
      \<and> dict_get event ''action'' (JStr ''unknown'') = Inr (p_action p)
      \<and> names_of (p_issue p) ''labels'' ''name'' = Inr labels
      \<and> names_of (p_issue p) ''assignees'' ''login'' = Inr assignees
      \<and> dict_get (p_issue p) ''created_at'' JNull = Inr created
      \<and> parse_github_timestamp_mysql (local_offset h) created = Inr (p_created_at p)
      \<and> dict_get (p_issue p) ''updated_at'' JNull = Inr updated
      \<and> parse_github_timestamp_mysql (local_offset h) updated = Inr (p_updated_at p)
      \<and> dict_get (p_issue p) ''closed_at'' JNull = Inr closed
      \<and> parse_github_timestamp_mysql (local_offset h) closed = Inr (p_closed_at p)
      \<and> p_payload_json p = json_dumps event
      \<and> p_labels_json p = json_dumps (JList labels)
      \<and> p_assignees_json p = json_dumps (JList assignees)"
  using assms unfolding mysql_prepare_def then_do_eq_Inr
  apply (elim exE conjE)
  apply (drule Inr_inject)
  apply hypsubst
  apply (simp del: json_dumps.simps)
  done

lemma mysql_params_Inr:
  assumes "mysql_params p = Inr row"
  shows "\<exists>i number title body state html_url user login.
      dict_get (p_issue p) ''id'' JNull = Inr i
      \<and> dict_get (p_issue p) ''number'' JNull = Inr number
      \<and> dict_get (p_issue p) ''title'' JNull = Inr title
      \<and> dict_get (p_issue p) ''body'' JNull = Inr body
      \<and> dict_get (p_issue p) ''state'' JNull = Inr state
      \<and> dict_get (p_issue p) ''html_url'' JNull = Inr html_url
      \<and> dict_get (p_issue p) ''user'' (JObj []) = Inr user
      \<and> dict_get user ''login'' JNull = Inr login
      \<and> row = \<lparr>c_id = Py i, c_number = Py number, c_title = Py title, c_body = Py body,
          c_state = Py state, c_created_at = moment (p_created_at p),
          c_updated_at = moment (p_updated_at p), c_closed_at = moment (p_closed_at p),
          c_url = Py html_url, c_user_login = Py login,
          c_labels = Py (JStr (p_labels_json p)),
          c_assignees = Py (JStr (p_assignees_json p)),
          c_event_action = Py (p_action p),
          c_payload = Py (JStr (p_payload_json p))\<rparr>"
  using assms unfolding mysql_params_def then_do_eq_Inr
  apply (elim exE conjE)
  apply (drule Inr_inject)
  apply hypsubst
  apply (intro exI conjI; (assumption | rule refl))
  done

text \<open>
  C2. The table is a map from the primary key to the row. When two runs of the MySQL
  script for events with the same issue id both succeed, the table holds after the second
  run, at the key of that id, the row of the second event with \<^verbatim>\<open>event_received_at\<close> the
  time of the second run; after the first run it held, at the same key, the row of the
  first event with the time of the first run. The second run adds no key and leaves the
  other rows as they were. Every column of the row is the value of the second event:
  the fields of its issue, its three timestamps as parsed, the JSON text of its labels
  and assignees, its action, and the JSON text of the whole event.
\<close>

theorem mysql_twice_one_row:
  assumes "\<not> connected d0"
    and "main_mysql h1 faults1 now1 d0 = (Inr (), d1)"
    and "main_mysql h2 faults2 now2 d1 = (Inr (), d2)"
    and "mysql_prepare h1 = Inr p1" and "mysql_prepare h2 = Inr p2"
    and "dict_get (p_issue p1) ''id'' JNull = dict_get (p_issue p2) ''id'' JNull"
  shows "\<exists>k row1 row2 t1.
      mysql_params p1 = Inr row1 \<and> mysql_params p2 = Inr row2
      \<and> key_of (c_id row1) = Some k \<and> key_of (c_id row2) = Some k
      \<and> stored d1 = Some t1 \<and> t1 k = Some (row1, now1)
      \<and> stored d2 = Some (t1(k \<mapsto> (row2, now2)))
      \<and> dom (t1(k \<mapsto> (row2, now2))) = dom t1
      \<and> (\<exists>path event labels assignees created updated closed i number title body state
            html_url user login.
            env (environ h2) ''GITHUB_EVENT_PATH'' None = Inr path
            \<and> load_event (files h2) path = Inr event
            \<and> issue_of event = Inr (p_issue p2)
            \<and> dict_get event ''action'' (JStr ''unknown'') = Inr (p_action p2)
            \<and> names_of (p_issue p2) ''labels'' ''name'' = Inr labels
            \<and> names_of (p_issue p2) ''assignees'' ''login'' = Inr assignees
            \<and> dict_get (p_issue p2) ''created_at'' JNull = Inr created
            \<and> parse_github_timestamp_mysql (local_offset h2) created = Inr (p_created_at p2)
            \<and> dict_get (p_issue p2) ''updated_at'' JNull = Inr updated
            \<and> parse_github_timestamp_mysql (local_offset h2) updated = Inr (p_updated_at p2)
            \<and> dict_get (p_issue p2) ''closed_at'' JNull = Inr closed
            \<and> parse_github_timestamp_mysql (local_offset h2) closed = Inr (p_closed_at p2)
            \<and> dict_get (p_issue p2) ''id'' JNull = Inr i
            \<and> dict_get (p_issue p2) ''number'' JNull = Inr number
            \<and> dict_get (p_issue p2) ''title'' JNull = Inr title
            \<and> dict_get (p_issue p2) ''body'' JNull = Inr body
            \<and> dict_get (p_issue p2) ''state'' JNull = Inr state
            \<and> dict_get (p_issue p2) ''html_url'' JNull = Inr html_url
            \<and> dict_get (p_issue p2) ''user'' (JObj []) = Inr user
            \<and> dict_get user ''login'' JNull = Inr login
            \<and> row2 = \<lparr>c_id = Py i, c_number = Py number, c_title = Py title, c_body = Py body,
                  c_state = Py state, c_created_at = moment (p_created_at p2),
                  c_updated_at = moment (p_updated_at p2), c_closed_at = moment (p_closed_at p2),
                  c_url = Py html_url, c_user_login = Py login,
                  c_labels = Py (JStr (json_dumps (JList labels))),
                  c_assignees = Py (JStr (json_dumps (JList assignees))),
                  c_event_action = Py (p_action p2),
                  c_payload = Py (JStr (json_dumps event))\<rparr>)"
proof -
  from main_mysql_success [OF assms(1,2)] assms(4) obtain row1 k1 where
    r1: "mysql_params p1 = Inr row1" "key_of (c_id row1) = Some k1"
      "stored d1 = Some ((rows_of (stored d0))(k1 \<mapsto> (row1, now1)))" "\<not> connected d1"
    by auto
  from main_mysql_success [OF r1(4) assms(3)] assms(5) obtain row2 k2 where
    r2: "mysql_params p2 = Inr row2" "key_of (c_id row2) = Some k2"
      "stored d2 = Some ((rows_of (stored d1))(k2 \<mapsto> (row2, now2)))"
    by auto
  from mysql_params_Inr [OF r1(1)] obtain i1 where
    i1: "dict_get (p_issue p1) ''id'' JNull = Inr i1" "c_id row1 = Py i1"
    by auto
  from mysql_params_Inr [OF r2(1)] obtain i number title body state html_url user login where
    q: "dict_get (p_issue p2) ''id'' JNull = Inr i"
      "dict_get (p_issue p2) ''number'' JNull = Inr number"
      "dict_get (p_issue p2) ''title'' JNull = Inr title"
      "dict_get (p_issue p2) ''body'' JNull = Inr body"
      "dict_get (p_issue p2) ''state'' JNull = Inr state"
      "dict_get (p_issue p2) ''html_url'' JNull = Inr html_url"
      "dict_get (p_issue p2) ''user'' (JObj []) = Inr user"
      "dict_get user ''login'' JNull = Inr login"
      "row2 = \<lparr>c_id = Py i, c_number = Py number, c_title = Py title, c_body = Py body,
          c_state = Py state, c_created_at = moment (p_created_at p2),
          c_updated_at = moment (p_updated_at p2), c_closed_at = moment (p_closed_at p2),
          c_url = Py html_url, c_user_login = Py login,
          c_labels = Py (JStr (p_labels_json p2)),
          c_assignees = Py (JStr (p_assignees_json p2)),
          c_event_action = Py (p_action p2),
          c_payload = Py (JStr (p_payload_json p2))\<rparr>"
    by blast
  from mysql_prepare_Inr [OF assms(5)] obtain path event labels assignees created updated closed
    where pr: "env (environ h2) ''GITHUB_EVENT_PATH'' None = Inr path"
      "load_event (files h2) path = Inr event"
      "issue_of event = Inr (p_issue p2)"
      "dict_get event ''action'' (JStr ''unknown'') = Inr (p_action p2)"
      "names_of (p_issue p2) ''labels'' ''name'' = Inr labels"
      "names_of (p_issue p2) ''assignees'' ''login'' = Inr assignees"
      "dict_get (p_issue p2) ''created_at'' JNull = Inr created"
      "parse_github_timestamp_mysql (local_offset h2) created = Inr (p_created_at p2)"
      "dict_get (p_issue p2) ''updated_at'' JNull = Inr updated"
      "parse_github_timestamp_mysql (local_offset h2) updated = Inr (p_updated_at p2)"
      "dict_get (p_issue p2) ''closed_at'' JNull = Inr closed"
      "parse_github_timestamp_mysql (local_offset h2) closed = Inr (p_closed_at p2)"
      "p_payload_json p2 = json_dumps event"
      "p_labels_json p2 = json_dumps (JList labels)"
      "p_assignees_json p2 = json_dumps (JList assignees)"
    by blast
  have "i1 = i" using assms(6) i1(1) q(1) by simp
  with i1(2) q(9) r1(2) r2(2) have k: "k2 = k1" by simp
  define t1 where "t1 = (rows_of (stored d0))(k1 \<mapsto> (row1, now1))"
  have s1: "stored d1 = Some t1" "t1 k1 = Some (row1, now1)"
    using r1(3) by (simp_all add: t1_def)
  have s2: "stored d2 = Some (t1(k1 \<mapsto> (row2, now2)))"
    using r2(3) s1(1) k by (simp add: rows_of_def)
  have dm: "dom (t1(k1 \<mapsto> (row2, now2))) = dom t1"
    using s1(2) by auto
  have row: "row2 = \<lparr>c_id = Py i, c_number = Py number, c_title = Py title, c_body = Py body,
                  c_state = Py state, c_created_at = moment (p_created_at p2),
                  c_updated_at = moment (p_updated_at p2), c_closed_at = moment (p_closed_at p2),
                  c_url = Py html_url, c_user_login = Py login,
                  c_labels = Py (JStr (json_dumps (JList labels))),
                  c_assignees = Py (JStr (json_dumps (JList assignees))),
                  c_event_action = Py (p_action p2),
                  c_payload = Py (JStr (json_dumps event))\<rparr>"
    using q(9) pr(13,14,15) by (simp del: json_dumps.simps)
  show ?thesis
    apply (rule exI [of _ k1], rule exI [of _ row1], rule exI [of _ row2], rule exI [of _ t1])
    apply (intro conjI)
            apply (rule r1(1))
           apply (rule r2(1))
          apply (rule r1(2))
         apply (simp add: r2(2) k)
        apply (rule s1(1))
       apply (rule s1(2))
      apply (rule s2)
     apply (rule dm)
    apply (intro exI conjI)
                        apply (rule pr(1) pr(2) pr(3) pr(4) pr(5) pr(6) pr(7) pr(8) pr(9) pr(10)
        pr(11) pr(12) q(1) q(2) q(3) q(4) q(5) q(6) q(7) q(8) row)+
    done
qed

lemma main_mysql_runs:
  assumes "mysql_prepare h = Inr p" "mysql_params p = Inr row" "key_of (c_id row) = Some k"
    "connect_args (environ h) = Inr (a, b, c, e, f)" "\<not> connected d"
  shows "main_mysql h no_faults now d
     = (Inr (),
        \<lparr>stored = Some ((rows_of (stored d))(k \<mapsto> (row, now))), working = None,
         connected = False,
         calls = calls d @ [(Connect a b c e f, True), (Cursor, True), (Create_table, True),
                            (Upsert row, True), (Commit, True), (Close, True)]\<rparr>)"
  using assms
  by (cases d)
    (simp add: main_mysql_def connect_mysql_def in_connection_def db_defs no_faults_def
      rows_of_def Let_def split: option.splits)

lemma mysql_prepare_closed:
  "mysql_prepare closed_host
     = Inr \<lparr>p_issue = JObj [(''id'', JInt 7), (''number'', JInt 3), (''state'', JStr ''closed'')],
            p_action = JStr ''closed'', p_payload_json = json_dumps closed_event,
            p_labels_json = ''[]'', p_assignees_json = ''[]'',
            p_created_at = None, p_updated_at = None, p_closed_at = None\<rparr>"
proof -
  have i: "issue_of closed_event
             = Inr (JObj [(''id'', JInt 7), (''number'', JInt 3), (''state'', JStr ''closed'')])"
    "dict_get closed_event ''action'' (JStr ''unknown'') = Inr (JStr ''closed'')"
    by (simp_all add: closed_event_def issue_of_def)
  show ?thesis
    unfolding mysql_prepare_def
    by (simp add: env_def getenv_def closed_host_def example_host_def example_environ_def
        example_files_def load_event_def i names_of_def null_timestamp json_dumps_empty_list
        del: json_dumps.simps)
qed

lemma mysql_params_closed:
  "mysql_params \<lparr>p_issue = JObj [(''id'', JInt 7), (''number'', JInt 3), (''state'', JStr ''closed'')],
            p_action = JStr ''closed'', p_payload_json = json_dumps closed_event,
            p_labels_json = ''[]'', p_assignees_json = ''[]'',
            p_created_at = None, p_updated_at = None, p_closed_at = None\<rparr> = Inr closed_row"
  by (simp add: mysql_params_def closed_row_def moment_def del: json_dumps.simps)

theorem mysql_twice_one_row_witness:
  "\<not> connected example_db
   \<and> fst (main_mysql example_host no_faults 100 example_db) = Inr ()
   \<and> fst (main_mysql closed_host no_faults 200
             (snd (main_mysql example_host no_faults 100 example_db))) = Inr ()
   \<and> rows_of (stored (snd (main_mysql example_host no_faults 100 example_db))) 7
       = Some (example_row, 100)
   \<and> rows_of (stored (snd (main_mysql closed_host no_faults 200
             (snd (main_mysql example_host no_faults 100 example_db))))) 7
       = Some (closed_row, 200)
   \<and> dom (rows_of (stored (snd (main_mysql closed_host no_faults 200
             (snd (main_mysql example_host no_faults 100 example_db)))))) = {7}"
proof -
  define d1 where "d1 = snd (main_mysql example_host no_faults 100 example_db)"
  define d2 where "d2 = snd (main_mysql closed_host no_faults 200 d1)"
  have nc: "\<not> connected example_db" by (simp add: example_db_def)
  have e1: "main_mysql example_host no_faults 100 example_db = (Inr (), d1)"
    "stored d1 = Some [7 \<mapsto> (example_row, 100)]" "\<not> connected d1"
    by (simp_all add: d1_def main_mysql_no_faults)
  have ca: "connect_args (environ closed_host) = Inr (''db.local'', 3306, ''sync'', ''pw'', ''github'')"
    by (simp add: closed_host_def environ_example_host connect_args_example)
  have kc: "key_of (c_id closed_row) = Some 7" by (simp add: key_of_def closed_row_def)
  note run = main_mysql_runs [OF mysql_prepare_closed mysql_params_closed kc ca e1(3), of 200]
  have e2: "main_mysql closed_host no_faults 200 d1 = (Inr (), d2)"
    by (simp add: d2_def run)
  have same: "dict_get (p_issue example_prepared) ''id'' JNull
      = dict_get (p_issue \<lparr>p_issue = JObj [(''id'', JInt 7), (''number'', JInt 3), (''state'', JStr ''closed'')],
            p_action = JStr ''closed'', p_payload_json = json_dumps closed_event,
            p_labels_json = ''[]'', p_assignees_json = ''[]'',
            p_created_at = None, p_updated_at = None, p_closed_at = None\<rparr>) ''id'' JNull"
    by (simp add: example_prepared_def example_gets del: json_dumps.simps)
  from mysql_twice_one_row [OF nc e1(1) e2 mysql_prepare_example_host mysql_prepare_closed same]
  obtain k row1 row2 t1 where
    w: "mysql_params example_prepared = Inr row1" 
       "mysql_params \<lparr>p_issue = JObj [(''id'', JInt 7), (''number'', JInt 3), (''state'', JStr ''closed'')],
            p_action = JStr ''closed'', p_payload_json = json_dumps closed_event,
            p_labels_json = ''[]'', p_assignees_json = ''[]'',
            p_created_at = None, p_updated_at = None, p_closed_at = None\<rparr> = Inr row2"
       "key_of (c_id row1) = Some k" "stored d1 = Some t1" "t1 k = Some (row1, 100)"
       "stored d2 = Some (t1(k \<mapsto> (row2, 200)))"
       "dom (t1(k \<mapsto> (row2, 200))) = dom t1"
    by blast
  from w(1) have row1: "row1 = example_row" by (simp add: mysql_params_example)
  from w(2) have row2: "row2 = closed_row" by (simp add: mysql_params_closed)
  from w(3) row1 have k: "k = 7" by (simp add: key_of_example)
  from w(4) e1(2) have t1: "t1 = [7 \<mapsto> (example_row, 100)]" by simp
  have a: "rows_of (stored d1) 7 = Some (example_row, 100)"
    using e1(2) by (simp add: rows_of_def)
  have b: "rows_of (stored d2) 7 = Some (closed_row, 200)"
    using w(6) row2 k by (simp add: rows_of_def)
  have c: "dom (rows_of (stored d2)) = {7}"
    using w(6,7) t1 k by (simp add: rows_of_def)
  from nc e1(1) e2 a b c show ?thesis
    unfolding d2_def [symmetric] d1_def [symmetric] by simp
qed

end
